theory Spec2Isabelle
  imports Main
begin

section \<open>Data model\<close>

text \<open>
  The registry keeps, per service name, a JSON array of nodes in a Cloudflare KV
  namespace. Two revisions of \<^verbatim>\<open>index.ts\<close> are covered: the one with separate
  \<^verbatim>\<open>/register\<close> and \<^verbatim>\<open>/heartbeat\<close> routes, and the one where \<^verbatim>\<open>POST /heartbeat\<close>
  both registers and renews. Everything else (expiry, compaction, sweep, discover,
  unregister) is the same code in both.

  Timestamps are the integers of \<^verbatim>\<open>Date.now()\<close> (milliseconds), modelled as \<open>int\<close>.
  The clock is read once per operation and passed as the argument \<open>now\<close> (the source
  reads it once per node inside the filter of the pass; the model takes these readings
  to be equal).

  Outside the model: the API-key, CORS and header middleware; a namespace call that
  itself fails; stored text that parses to something other than an array of
  \<^verbatim>\<open>{address, lastHeartbeat}\<close> objects; the expiry of keys by the namespace once their
  time-to-live has passed.
\<close>

record ServiceNode =
  address :: string
  lastHeartbeat :: int

text \<open>
  The request body (\<^verbatim>\<open>HeartbeatRequest\<close>, called \<^verbatim>\<open>RegisterRequest\<close> in the
  split revision). A field that the JSON body does not have is \<open>None\<close>.
\<close>

datatype HeartbeatRequest =
  HeartbeatRequest (serviceName: "string option") (reqAddress: "string option")

text \<open>\<^verbatim>\<open>c.req.json()\<close> throws on a body that is not JSON.\<close>

datatype request = JsonBody HeartbeatRequest | NotJsonBody

datatype error = SyntaxError

fun req_json :: "request \<Rightarrow> error + HeartbeatRequest" where
  "req_json (JsonBody body) = Inr body"
| "req_json NotJsonBody = Inl SyntaxError"

text \<open>
  The text stored under a key, by what \<^verbatim>\<open>JSON.parse\<close> makes of it: the empty string
  (falsy in JavaScript), the serialisation of a node array (what \<^verbatim>\<open>JSON.stringify\<close>
  writes), or any other non-empty text, on which \<^verbatim>\<open>JSON.parse\<close> throws.
\<close>

datatype kv_text = EmptyString | NodeArray "ServiceNode list" | NotJson

fun JSON_parse :: "kv_text \<Rightarrow> error + ServiceNode list" where
  "JSON_parse (NodeArray nodes) = Inr nodes"
| "JSON_parse EmptyString = Inl SyntaxError"
| "JSON_parse NotJson = Inl SyntaxError"

definition JSON_stringify :: "ServiceNode list \<Rightarrow> kv_text" where
  "JSON_stringify nodes = NodeArray nodes"

text \<open>
  The KV namespace: each key holds a text and the \<^verbatim>\<open>expirationTtl\<close> (seconds) of its
  last \<^verbatim>\<open>put\<close>, \<open>None\<close> when that \<^verbatim>\<open>put\<close> gave no option. The environment also
  records the calls made on the namespace, oldest first.
\<close>

type_synonym kv_entry = "kv_text \<times> nat option"

datatype kv_call =
    Get string
  | Put string kv_text "nat option"
  | Delete string
  | List

record Env =
  register_center :: "string \<rightharpoonup> kv_entry"
  calls :: "kv_call list"

definition kv_get :: "string \<Rightarrow> Env \<Rightarrow> kv_text option \<times> Env" where
  "kv_get key env =
     (map_option fst (register_center env key), env\<lparr>calls := calls env @ [Get key]\<rparr>)"

definition kv_put :: "string \<Rightarrow> kv_text \<Rightarrow> nat option \<Rightarrow> Env \<Rightarrow> Env" where
  "kv_put key txt ttl env =
     env\<lparr>register_center := (register_center env)(key \<mapsto> (txt, ttl)),
         calls := calls env @ [Put key txt ttl]\<rparr>"

definition kv_delete :: "string \<Rightarrow> Env \<Rightarrow> Env" where
  "kv_delete key env =
     env\<lparr>register_center := (register_center env)(key := None),
         calls := calls env @ [Delete key]\<rparr>"

text \<open>The JSON replies. Messages are named by what the source's text says.\<close>

datatype message =
    Missing_fields
  | Missing_serviceName
  | Service_not_registered
  | Node_not_registered
  | Already_registered
  | Register_ok
  | First_register_ok
  | Heartbeat_ok
  | Discover_ok
  | Unregister_ok
  | Health_ok
  | Register_failed
  | Heartbeat_failed
  | Operation_failed
  | Discover_failed
  | Unregister_failed

datatype data =
    UpsertData string string int int string
  | RenewData string string int int
  | DiscoverData string nat "string list" "ServiceNode list"
  | HealthData int int nat
  | ErrorData error

datatype response = Response (code: nat) (message: message) (data: "data option")

section \<open>Constants and helpers\<close>

definition HEARTBEAT_EXPIRE :: int where
  "HEARTBEAT_EXPIRE = 300"

definition KV_DEFAULT_TTL :: nat where
  "KV_DEFAULT_TTL = 3600 * 24"

text \<open>JavaScript's \<^verbatim>\<open>!x\<close> on a string that may be missing: true when missing or empty.\<close>

fun falsy :: "string option \<Rightarrow> bool" where
  "falsy None = True"
| "falsy (Some s) = (s = [])"

text \<open>\<^verbatim>\<open>Array.prototype.findIndex\<close>; \<open>None\<close> stands for the result -1.\<close>

fun findIndex :: "('a \<Rightarrow> bool) \<Rightarrow> 'a list \<Rightarrow> nat option" where
  "findIndex P [] = None"
| "findIndex P (x # xs) = (if P x then Some 0 else map_option Suc (findIndex P xs))"

text \<open>The expression \<^verbatim>\<open>serviceStr ? JSON.parse(serviceStr) : []\<close>.\<close>

fun parse_or_empty :: "kv_text option \<Rightarrow> error + ServiceNode list" where
  "parse_or_empty None = Inr []"
| "parse_or_empty (Some txt) = (if txt = EmptyString then Inr [] else JSON_parse txt)"

section \<open>Expiry and compaction\<close>

definition isNodeExpired :: "int \<Rightarrow> ServiceNode \<Rightarrow> bool" where
  "isNodeExpired now node \<longleftrightarrow> now - lastHeartbeat node > HEARTBEAT_EXPIRE * 1000"

definition cleanExpiredNodes :: "int \<Rightarrow> Env \<Rightarrow> string \<Rightarrow> (error + ServiceNode list) \<times> Env" where
  "cleanExpiredNodes now env name =
     (case kv_get name env of (serviceStr, env1) \<Rightarrow>
        (case serviceStr of
           None \<Rightarrow> (Inr [], env1)
         | Some txt \<Rightarrow>
             if txt = EmptyString then (Inr [], env1)
             else
               (case JSON_parse txt of
                  Inl e \<Rightarrow> (Inl e, env1)
                | Inr nodes \<Rightarrow>
                    let activeNodes = filter (\<lambda>node. \<not> isNodeExpired now node) nodes in
                    if length activeNodes > 0
                    then (Inr activeNodes,
                          kv_put name (JSON_stringify activeNodes) (Some KV_DEFAULT_TTL) env1)
                    else (Inr activeNodes, kv_delete name env1))))"

text \<open>
  The sweep. \<^verbatim>\<open>list({ prefix: '' })\<close> is the platform's enumeration; the key names
  it returned are the argument \<open>keys\<close>, in the order the loop visits them. An
  exception thrown by one iteration leaves the loop.
\<close>

fun sweep_keys :: "int \<Rightarrow> string list \<Rightarrow> Env \<Rightarrow> (error + unit) \<times> Env" where
  "sweep_keys now [] env = (Inr (), env)"
| "sweep_keys now (key # keys) env =
     (case cleanExpiredNodes now env key of
        (Inl e, env') \<Rightarrow> (Inl e, env')
      | (Inr _, env') \<Rightarrow> sweep_keys now keys env')"

definition cleanAllExpiredNodes :: "int \<Rightarrow> string list \<Rightarrow> Env \<Rightarrow> (error + unit) \<times> Env" where
  "cleanAllExpiredNodes now keys env = sweep_keys now keys (env\<lparr>calls := calls env @ [List]\<rparr>)"

section \<open>Route handlers\<close>

text \<open>\<^verbatim>\<open>POST /heartbeat\<close> of the merged revision: register or renew.\<close>

definition post_heartbeat :: "int \<Rightarrow> request \<Rightarrow> Env \<Rightarrow> response \<times> Env" where
  "post_heartbeat now req env =
     (case req_json req of
        Inl e \<Rightarrow> (Response 500 Operation_failed (Some (ErrorData e)), env)
      | Inr body \<Rightarrow>
          if falsy (serviceName body) \<or> falsy (reqAddress body)
          then (Response 400 Missing_fields None, env)
          else
            (case (serviceName body, reqAddress body) of
               (Some name, Some addr) \<Rightarrow>
                 (case kv_get name env of (serviceStr, env1) \<Rightarrow>
                    (case parse_or_empty serviceStr of
                       Inl e \<Rightarrow> (Response 500 Operation_failed (Some (ErrorData e)), env1)
                     | Inr nodes \<Rightarrow>
                         let (nodes', operationType) =
                               (case findIndex (\<lambda>node. address node = addr) nodes of
                                  None \<Rightarrow>
                                    (nodes @ [\<lparr>address = addr, lastHeartbeat = now\<rparr>],
                                     ''register'')
                                | Some nodeIndex \<Rightarrow>
                                    (nodes[nodeIndex := (nodes ! nodeIndex)\<lparr>lastHeartbeat := now\<rparr>],
                                     ''heartbeat''));
                             env2 = kv_put name (JSON_stringify nodes') (Some KV_DEFAULT_TTL) env1
                         in (Response 200
                               (if operationType = ''register'' then First_register_ok
                                else Heartbeat_ok)
                               (Some (UpsertData name addr now
                                        (now + HEARTBEAT_EXPIRE * 1000) operationType)),
                             env2)))
             | _ \<Rightarrow> (Response 400 Missing_fields None, env)))"

text \<open>\<^verbatim>\<open>POST /register\<close> of the split revision: a duplicate address is left as it is.\<close>

definition post_register :: "int \<Rightarrow> request \<Rightarrow> Env \<Rightarrow> response \<times> Env" where
  "post_register now req env =
     (case req_json req of
        Inl e \<Rightarrow> (Response 500 Register_failed (Some (ErrorData e)), env)
      | Inr body \<Rightarrow>
          if falsy (serviceName body) \<or> falsy (reqAddress body)
          then (Response 400 Missing_fields None, env)
          else
            (case (serviceName body, reqAddress body) of
               (Some name, Some addr) \<Rightarrow>
                 (case kv_get name env of (serviceStr, env1) \<Rightarrow>
                    (case parse_or_empty serviceStr of
                       Inl e \<Rightarrow> (Response 500 Register_failed (Some (ErrorData e)), env1)
                     | Inr nodes \<Rightarrow>
                         if list_ex (\<lambda>node. address node = addr) nodes
                         then (Response 200 Already_registered None, env1)
                         else
                           let nodes' = nodes @ [\<lparr>address = addr, lastHeartbeat = now\<rparr>];
                               env2 = kv_put name (JSON_stringify nodes') (Some KV_DEFAULT_TTL) env1
                           in (Response 200 Register_ok None, env2)))
             | _ \<Rightarrow> (Response 400 Missing_fields None, env)))"

text \<open>\<^verbatim>\<open>POST /heartbeat\<close> of the split revision: renews a registered node only.\<close>

definition post_heartbeat_renew :: "int \<Rightarrow> request \<Rightarrow> Env \<Rightarrow> response \<times> Env" where
  "post_heartbeat_renew now req env =
     (case req_json req of
        Inl e \<Rightarrow> (Response 500 Heartbeat_failed (Some (ErrorData e)), env)
      | Inr body \<Rightarrow>
          if falsy (serviceName body) \<or> falsy (reqAddress body)
          then (Response 400 Missing_fields None, env)
          else
            (case (serviceName body, reqAddress body) of
               (Some name, Some addr) \<Rightarrow>
                 (case kv_get name env of (serviceStr, env1) \<Rightarrow>
                    (case serviceStr of
                       None \<Rightarrow> (Response 404 Service_not_registered None, env1)
                     | Some txt \<Rightarrow>
                         if txt = EmptyString
                         then (Response 404 Service_not_registered None, env1)
                         else
                           (case JSON_parse txt of
                              Inl e \<Rightarrow> (Response 500 Heartbeat_failed (Some (ErrorData e)), env1)
                            | Inr nodes \<Rightarrow>
                                (case findIndex (\<lambda>node. address node = addr) nodes of
                                   None \<Rightarrow> (Response 404 Node_not_registered None, env1)
                                 | Some nodeIndex \<Rightarrow>
                                     let nodes' = nodes[nodeIndex :=
                                                    (nodes ! nodeIndex)\<lparr>lastHeartbeat := now\<rparr>];
                                         env2 = kv_put name (JSON_stringify nodes')
                                                  (Some KV_DEFAULT_TTL) env1
                                     in (Response 200 Heartbeat_ok
                                           (Some (RenewData name addr now
                                                    (now + HEARTBEAT_EXPIRE * 1000))),
                                         env2)))))
             | _ \<Rightarrow> (Response 400 Missing_fields None, env)))"

text \<open>\<^verbatim>\<open>GET /discover\<close>; the argument is the query parameter \<^verbatim>\<open>serviceName\<close>.\<close>

definition get_discover :: "int \<Rightarrow> string option \<Rightarrow> Env \<Rightarrow> response \<times> Env" where
  "get_discover now query env =
     (if falsy query then (Response 400 Missing_serviceName None, env)
      else
        (case query of
           Some name \<Rightarrow>
             (case cleanExpiredNodes now env name of
                (Inl e, env') \<Rightarrow> (Response 500 Discover_failed (Some (ErrorData e)), env')
              | (Inr activeNodes, env') \<Rightarrow>
                  (Response 200 Discover_ok
                     (Some (DiscoverData name (length activeNodes)
                              (map address activeNodes) activeNodes)),
                   env'))
         | None \<Rightarrow> (Response 400 Missing_serviceName None, env)))"

text \<open>\<^verbatim>\<open>POST /unregister\<close>. Its \<^verbatim>\<open>put\<close> passes no options.\<close>

definition post_unregister :: "request \<Rightarrow> Env \<Rightarrow> response \<times> Env" where
  "post_unregister req env =
     (case req_json req of
        Inl e \<Rightarrow> (Response 500 Unregister_failed (Some (ErrorData e)), env)
      | Inr body \<Rightarrow>
          if falsy (serviceName body) \<or> falsy (reqAddress body)
          then (Response 400 Missing_fields None, env)
          else
            (case (serviceName body, reqAddress body) of
               (Some name, Some addr) \<Rightarrow>
                 (case kv_get name env of (serviceStr, env1) \<Rightarrow>
                    (case serviceStr of
                       None \<Rightarrow> (Response 404 Service_not_registered None, env1)
                     | Some txt \<Rightarrow>
                         if txt = EmptyString
                         then (Response 404 Service_not_registered None, env1)
                         else
                           (case JSON_parse txt of
                              Inl e \<Rightarrow> (Response 500 Unregister_failed (Some (ErrorData e)), env1)
                            | Inr nodes \<Rightarrow>
                                let newNodes = filter (\<lambda>node. address node \<noteq> addr) nodes in
                                if length newNodes = length nodes
                                then (Response 404 Node_not_registered None, env1)
                                else if length newNodes > 0
                                then (Response 200 Unregister_ok None,
                                      kv_put name (JSON_stringify newNodes) None env1)
                                else (Response 200 Unregister_ok None, kv_delete name env1))))
             | _ \<Rightarrow> (Response 400 Missing_fields None, env)))"

text \<open>
  \<^verbatim>\<open>GET /health\<close> runs the sweep outside any \<^verbatim>\<open>try\<close>: an exception leaves the
  handler (\<open>Inl\<close>).
\<close>

definition get_health :: "int \<Rightarrow> string list \<Rightarrow> Env \<Rightarrow> (error + response) \<times> Env" where
  "get_health now keys env =
     (case cleanAllExpiredNodes now keys env of
        (Inl e, env') \<Rightarrow> (Inl e, env')
      | (Inr _, env') \<Rightarrow>
          (Inr (Response 200 Health_ok
                  (Some (HealthData now HEARTBEAT_EXPIRE KV_DEFAULT_TTL))),
           env'))"

section \<open>Notions used by the statements\<close>

text \<open>The node list an operation works on when it reads a key with the ternary above.\<close>

definition stored_nodes :: "Env \<Rightarrow> string \<Rightarrow> error + ServiceNode list" where
  "stored_nodes env name = parse_or_empty (map_option fst (register_center env name))"

text \<open>No key holds the serialisation of an empty node array.\<close>

definition no_empty_entry :: "(string \<rightharpoonup> kv_entry) \<Rightarrow> bool" where
  "no_empty_entry store \<longleftrightarrow> (\<forall>key ttl. store key \<noteq> Some (NodeArray [], ttl))"

text \<open>A call on the namespace that does not write an empty node array.\<close>

fun nonempty_put :: "kv_call \<Rightarrow> bool" where
  "nonempty_put (Put key (NodeArray nodes) ttl) = (nodes \<noteq> [])"
| "nonempty_put (Put key EmptyString ttl) = False"
| "nonempty_put (Put key NotJson ttl) = False"
| "nonempty_put (Get key) = True"
| "nonempty_put (Delete key) = True"
| "nonempty_put List = True"

text \<open>
  What one expire-and-compact pass at time \<open>now\<close> makes of the entry of a key: an
  absent key stays absent, a node array loses its expired nodes and is dropped when
  none is left, any other text stays as it is.
\<close>

fun compacted :: "int \<Rightarrow> kv_entry option \<Rightarrow> kv_entry option" where
  "compacted now None = None"
| "compacted now (Some (NodeArray nodes, ttl)) =
     (let act = filter (\<lambda>node. \<not> isNodeExpired now node) nodes in
      if act = [] then None else Some (NodeArray act, Some KV_DEFAULT_TTL))"
| "compacted now (Some (EmptyString, ttl)) = Some (EmptyString, ttl)"
| "compacted now (Some (NotJson, ttl)) = Some (NotJson, ttl)"

text \<open>The operations of both revisions, and the environment each leaves behind.\<close>

datatype operation =
    Upsert request
  | Register request
  | Renew request
  | Discover "string option"
  | Unregister request
  | Health "string list"

fun perform :: "int \<Rightarrow> operation \<Rightarrow> Env \<Rightarrow> Env" where
  "perform now (Upsert req) env = snd (post_heartbeat now req env)"
| "perform now (Register req) env = snd (post_register now req env)"
| "perform now (Renew req) env = snd (post_heartbeat_renew now req env)"
| "perform now (Discover query) env = snd (get_discover now query env)"
| "perform now (Unregister req) env = snd (post_unregister req env)"
| "perform now (Health keys) env = snd (get_health now keys env)"

text \<open>Concrete requests and environments for the examples.\<close>

definition req_a_x :: request where
  "req_a_x = JsonBody (HeartbeatRequest (Some ''a'') (Some ''10.0.0.1''))"

definition node_x :: "int \<Rightarrow> ServiceNode" where
  "node_x t = \<lparr>address = ''10.0.0.1'', lastHeartbeat = t\<rparr>"

definition node_y :: "int \<Rightarrow> ServiceNode" where
  "node_y t = \<lparr>address = ''10.0.0.2'', lastHeartbeat = t\<rparr>"

definition env_none :: Env where
  "env_none = \<lparr>register_center = Map.empty, calls = []\<rparr>"

definition env_a :: "kv_text \<Rightarrow> Env" where
  "env_a txt = \<lparr>register_center = [''a'' \<mapsto> (txt, Some 86400)], calls = []\<rparr>"

definition env_a_b :: "kv_text \<Rightarrow> kv_text \<Rightarrow> Env" where
  "env_a_b txt_a txt_b =
     \<lparr>register_center = [''a'' \<mapsto> (txt_a, Some 86400), ''b'' \<mapsto> (txt_b, Some 86400)],
      calls = []\<rparr>"

section \<open>Facts about the helpers\<close>

lemma findIndex_None: "findIndex P xs = None \<longleftrightarrow> (\<forall>x\<in>set xs. \<not> P x)"
  by (induction xs) auto

lemma findIndex_Some:
  "findIndex P xs = Some i \<Longrightarrow> i < length xs \<and> P (xs ! i) \<and> (\<forall>j<i. \<not> P (xs ! j))"
proof (induction xs arbitrary: i)
  case Nil
  then show ?case by simp
next
  case (Cons x xs)
  show ?case
  proof (cases "P x")
    case True
    with Cons.prems show ?thesis by simp
  next
    case False
    with Cons.prems obtain k where k: "findIndex P xs = Some k" "i = Suc k"
      by auto
    from Cons.IH [OF k(1)] False k(2) show ?thesis
      by (auto simp: less_Suc_eq_0_disj)
  qed
qed

lemma findIndex_append_new:
  "\<forall>x\<in>set xs. \<not> P x \<Longrightarrow> P y \<Longrightarrow> findIndex P (xs @ [y]) = Some (length xs)"
  by (induction xs) auto

lemma length_filter_eq_iff: "length (filter P xs) = length xs \<longleftrightarrow> (\<forall>x\<in>set xs. P x)"
proof (induction xs)
  case Nil
  show ?case by simp
next
  case (Cons x xs)
  have le: "length (filter P xs) \<le> length xs"
    by (rule length_filter_le)
  show ?case
  proof (cases "P x")
    case True
    with Cons show ?thesis by simp
  next
    case False
    from le have "length (filter P xs) \<noteq> Suc (length xs)" by arith
    with False show ?thesis by simp
  qed
qed

lemma falsy_iff: "falsy v \<longleftrightarrow> v = None \<or> v = Some []"
  by (cases v) auto

lemma entry_cases [case_names absent empty_string nodes not_json]:
  obtains "register_center env name = None"
  | ttl where "register_center env name = Some (EmptyString, ttl)"
  | nodes ttl where "register_center env name = Some (NodeArray nodes, ttl)"
  | ttl where "register_center env name = Some (NotJson, ttl)"
proof (cases "register_center env name")
  case None
  then show ?thesis using that(1) by simp
next
  case (Some stored)
  obtain body ttl where "stored = (body, ttl)"
    by (cases stored)
  with Some that(2-4) show ?thesis
    by (cases body) simp_all
qed

section \<open>What each handler does, case by case\<close>

lemma cleanExpiredNodes_absent:
  "register_center env name = None \<Longrightarrow>
   cleanExpiredNodes now env name = (Inr [], env\<lparr>calls := calls env @ [Get name]\<rparr>)"
  by (simp add: cleanExpiredNodes_def kv_get_def)

lemma cleanExpiredNodes_empty_string:
  "register_center env name = Some (EmptyString, ttl) \<Longrightarrow>
   cleanExpiredNodes now env name = (Inr [], env\<lparr>calls := calls env @ [Get name]\<rparr>)"
  by (simp add: cleanExpiredNodes_def kv_get_def)

lemma cleanExpiredNodes_not_json:
  "register_center env name = Some (NotJson, ttl) \<Longrightarrow>
   cleanExpiredNodes now env name = (Inl SyntaxError, env\<lparr>calls := calls env @ [Get name]\<rparr>)"
  by (simp add: cleanExpiredNodes_def kv_get_def)

lemma cleanExpiredNodes_nodes:
  "register_center env name = Some (NodeArray nodes, ttl) \<Longrightarrow>
   cleanExpiredNodes now env name =
     (let act = filter (\<lambda>node. \<not> isNodeExpired now node) nodes in
      (Inr act,
       if act \<noteq> []
       then env\<lparr>register_center := (register_center env)(name \<mapsto> (NodeArray act, Some 86400)),
                calls := calls env @ [Get name, Put name (NodeArray act) (Some 86400)]\<rparr>
       else env\<lparr>register_center := (register_center env)(name := None),
                calls := calls env @ [Get name, Delete name]\<rparr>))"
  by (simp add: cleanExpiredNodes_def kv_get_def kv_put_def kv_delete_def JSON_stringify_def
      KV_DEFAULT_TTL_def Let_def)

lemma post_heartbeat_falsy:
  "falsy sn \<or> falsy a \<Longrightarrow>
   post_heartbeat now (JsonBody (HeartbeatRequest sn a)) env = (Response 400 Missing_fields None, env)"
  by (simp add: post_heartbeat_def)

lemma post_register_falsy:
  "falsy sn \<or> falsy a \<Longrightarrow>
   post_register now (JsonBody (HeartbeatRequest sn a)) env = (Response 400 Missing_fields None, env)"
  by (simp add: post_register_def)

lemma post_heartbeat_renew_falsy:
  "falsy sn \<or> falsy a \<Longrightarrow>
   post_heartbeat_renew now (JsonBody (HeartbeatRequest sn a)) env =
     (Response 400 Missing_fields None, env)"
  by (simp add: post_heartbeat_renew_def)

lemma post_unregister_falsy:
  "falsy sn \<or> falsy a \<Longrightarrow>
   post_unregister (JsonBody (HeartbeatRequest sn a)) env = (Response 400 Missing_fields None, env)"
  by (simp add: post_unregister_def)

lemma post_heartbeat_new:
  assumes "name \<noteq> []" "addr \<noteq> []" "stored_nodes env name = Inr nodes"
    and "\<forall>r\<in>set nodes. address r \<noteq> addr"
  shows "post_heartbeat now (JsonBody (HeartbeatRequest (Some name) (Some addr))) env =
     (Response 200 First_register_ok
        (Some (UpsertData name addr now (now + 300000) ''register'')),
      env\<lparr>register_center := (register_center env)
              (name \<mapsto> (NodeArray (nodes @ [\<lparr>address = addr, lastHeartbeat = now\<rparr>]), Some 86400)),
          calls := calls env @ [Get name,
              Put name (NodeArray (nodes @ [\<lparr>address = addr, lastHeartbeat = now\<rparr>])) (Some 86400)]\<rparr>)"
proof -
  have "findIndex (\<lambda>node. address node = addr) nodes = None"
    using assms(4) by (simp add: findIndex_None)
  with assms(1-3) show ?thesis
    by (simp add: post_heartbeat_def stored_nodes_def kv_get_def kv_put_def JSON_stringify_def
        KV_DEFAULT_TTL_def HEARTBEAT_EXPIRE_def)
qed

lemma post_heartbeat_known:
  assumes "name \<noteq> []" "addr \<noteq> []" "stored_nodes env name = Inr nodes"
    and "findIndex (\<lambda>node. address node = addr) nodes = Some i"
  shows "post_heartbeat now (JsonBody (HeartbeatRequest (Some name) (Some addr))) env =
     (Response 200 Heartbeat_ok
        (Some (UpsertData name addr now (now + 300000) ''heartbeat'')),
      env\<lparr>register_center := (register_center env)
              (name \<mapsto> (NodeArray (nodes[i := (nodes ! i)\<lparr>lastHeartbeat := now\<rparr>]), Some 86400)),
          calls := calls env @ [Get name,
              Put name (NodeArray (nodes[i := (nodes ! i)\<lparr>lastHeartbeat := now\<rparr>])) (Some 86400)]\<rparr>)"
  using assms
  by (simp add: post_heartbeat_def stored_nodes_def kv_get_def kv_put_def JSON_stringify_def
      KV_DEFAULT_TTL_def HEARTBEAT_EXPIRE_def)

lemma post_heartbeat_not_json:
  assumes "name \<noteq> []" "addr \<noteq> []" "register_center env name = Some (NotJson, ttl)"
  shows "post_heartbeat now (JsonBody (HeartbeatRequest (Some name) (Some addr))) env =
     (Response 500 Operation_failed (Some (ErrorData SyntaxError)),
      env\<lparr>calls := calls env @ [Get name]\<rparr>)"
  using assms by (simp add: post_heartbeat_def kv_get_def)

lemma post_unregister_absent:
  assumes "name \<noteq> []" "addr \<noteq> []" "register_center env name = None"
  shows "post_unregister (JsonBody (HeartbeatRequest (Some name) (Some addr))) env =
     (Response 404 Service_not_registered None, env\<lparr>calls := calls env @ [Get name]\<rparr>)"
  using assms by (simp add: post_unregister_def kv_get_def)

lemma post_unregister_empty_string:
  assumes "name \<noteq> []" "addr \<noteq> []" "register_center env name = Some (EmptyString, ttl)"
  shows "post_unregister (JsonBody (HeartbeatRequest (Some name) (Some addr))) env =
     (Response 404 Service_not_registered None, env\<lparr>calls := calls env @ [Get name]\<rparr>)"
  using assms by (simp add: post_unregister_def kv_get_def)

lemma post_unregister_not_json:
  assumes "name \<noteq> []" "addr \<noteq> []" "register_center env name = Some (NotJson, ttl)"
  shows "post_unregister (JsonBody (HeartbeatRequest (Some name) (Some addr))) env =
     (Response 500 Unregister_failed (Some (ErrorData SyntaxError)),
      env\<lparr>calls := calls env @ [Get name]\<rparr>)"
  using assms by (simp add: post_unregister_def kv_get_def)

lemma post_unregister_unknown:
  assumes "name \<noteq> []" "addr \<noteq> []" "register_center env name = Some (NodeArray nodes, ttl)"
    and "\<forall>r\<in>set nodes. address r \<noteq> addr"
  shows "post_unregister (JsonBody (HeartbeatRequest (Some name) (Some addr))) env =
     (Response 404 Node_not_registered None, env\<lparr>calls := calls env @ [Get name]\<rparr>)"
  using assms by (simp add: post_unregister_def kv_get_def length_filter_eq_iff)

lemma post_unregister_known:
  assumes "name \<noteq> []" "addr \<noteq> []" "register_center env name = Some (NodeArray nodes, ttl)"
    and "\<exists>r\<in>set nodes. address r = addr"
  shows "post_unregister (JsonBody (HeartbeatRequest (Some name) (Some addr))) env =
     (Response 200 Unregister_ok None,
      let newNodes = filter (\<lambda>node. address node \<noteq> addr) nodes in
      if newNodes \<noteq> []
      then env\<lparr>register_center := (register_center env)(name \<mapsto> (NodeArray newNodes, None)),
               calls := calls env @ [Get name, Put name (NodeArray newNodes) None]\<rparr>
      else env\<lparr>register_center := (register_center env)(name := None),
               calls := calls env @ [Get name, Delete name]\<rparr>)"
proof -
  have "length (filter (\<lambda>node. address node \<noteq> addr) nodes) \<noteq> length nodes"
    using assms(4) by (simp add: length_filter_eq_iff)
  with assms(1-3) show ?thesis
    by (simp add: post_unregister_def kv_get_def kv_put_def kv_delete_def JSON_stringify_def
        Let_def)
qed

section \<open>The split revision\<close>

text \<open>
  In the revision with separate routes, \<^verbatim>\<open>POST /register\<close> leaves a registered address
  as it is (no renewal, no write), and \<^verbatim>\<open>POST /heartbeat\<close> answers 404 for an address
  that is not registered. Register-or-renew is the merged revision's \<^verbatim>\<open>POST /heartbeat\<close>.
\<close>

lemma post_register_duplicate:
  assumes "name \<noteq> []" and "addr \<noteq> []" and "stored_nodes env name = Inr nodes"
    and "\<exists>r\<in>set nodes. address r = addr"
  shows "post_register now (JsonBody (HeartbeatRequest (Some name) (Some addr))) env =
     (Response 200 Already_registered None, env\<lparr>calls := calls env @ [Get name]\<rparr>)"
  using assms
  by (simp add: post_register_def stored_nodes_def kv_get_def list_ex_iff)

lemma post_heartbeat_renew_unknown:
  assumes "name \<noteq> []" and "addr \<noteq> []"
    and "register_center env name = Some (NodeArray nodes, ttl)"
    and "\<forall>r\<in>set nodes. address r \<noteq> addr"
  shows "post_heartbeat_renew now (JsonBody (HeartbeatRequest (Some name) (Some addr))) env =
     (Response 404 Node_not_registered None, env\<lparr>calls := calls env @ [Get name]\<rparr>)"
proof -
  have "findIndex (\<lambda>node. address node = addr) nodes = None"
    using assms(4) by (simp add: findIndex_None)
  with assms(1-3) show ?thesis
    by (simp add: post_heartbeat_renew_def kv_get_def)
qed

lemma stored_nodes_cases:
  assumes "stored_nodes env name = Inr nodes"
  obtains "register_center env name = None" and "nodes = []"
  | ttl where "register_center env name = Some (EmptyString, ttl)" and "nodes = []"
  | ttl where "register_center env name = Some (NodeArray nodes, ttl)"
proof (cases rule: entry_cases [of env name])
  case absent
  with assms that(1) show ?thesis
    by (simp add: stored_nodes_def)
next
  case (empty_string ttl)
  with assms that(2) show ?thesis
    by (simp add: stored_nodes_def)
next
  case (nodes ns ttl)
  with assms that(3) show ?thesis
    by (simp add: stored_nodes_def)
next
  case (not_json ttl)
  with assms show ?thesis
    by (simp add: stored_nodes_def)
qed

lemma post_register_new:
  assumes "name \<noteq> []" and "addr \<noteq> []" and "stored_nodes env name = Inr nodes"
    and "\<forall>r\<in>set nodes. address r \<noteq> addr"
  shows "post_register now (JsonBody (HeartbeatRequest (Some name) (Some addr))) env =
     (Response 200 Register_ok None,
      env\<lparr>register_center := (register_center env)
              (name \<mapsto> (NodeArray (nodes @ [\<lparr>address = addr, lastHeartbeat = now\<rparr>]), Some 86400)),
          calls := calls env @ [Get name,
              Put name (NodeArray (nodes @ [\<lparr>address = addr, lastHeartbeat = now\<rparr>])) (Some 86400)]\<rparr>)"
  using assms
  by (simp add: post_register_def stored_nodes_def kv_get_def kv_put_def JSON_stringify_def
      KV_DEFAULT_TTL_def list_ex_iff Let_def)

lemma post_heartbeat_renew_known:
  assumes "name \<noteq> []" and "addr \<noteq> []" and "stored_nodes env name = Inr nodes"
    and "findIndex (\<lambda>node. address node = addr) nodes = Some i"
  shows "post_heartbeat_renew now (JsonBody (HeartbeatRequest (Some name) (Some addr))) env =
     (Response 200 Heartbeat_ok (Some (RenewData name addr now (now + 300000))),
      env\<lparr>register_center := (register_center env)
              (name \<mapsto> (NodeArray (nodes[i := (nodes ! i)\<lparr>lastHeartbeat := now\<rparr>]), Some 86400)),
          calls := calls env @ [Get name,
              Put name (NodeArray (nodes[i := (nodes ! i)\<lparr>lastHeartbeat := now\<rparr>])) (Some 86400)]\<rparr>)"
proof -
  from assms(4) have "nodes \<noteq> []"
    by (cases nodes) simp_all
  with assms(3) obtain ttl where "register_center env name = Some (NodeArray nodes, ttl)"
    by (cases rule: stored_nodes_cases) simp_all
  with assms(1,2,4) show ?thesis
    by (simp add: post_heartbeat_renew_def kv_get_def kv_put_def JSON_stringify_def
        KV_DEFAULT_TTL_def HEARTBEAT_EXPIRE_def Let_def)
qed

lemma post_heartbeat_renew_not_found:
  assumes "name \<noteq> []" and "addr \<noteq> []" and "stored_nodes env name = Inr nodes"
    and "\<forall>r\<in>set nodes. address r \<noteq> addr"
  shows "code (fst (post_heartbeat_renew now (JsonBody (HeartbeatRequest (Some name) (Some addr))) env)) = 404 \<and>
     snd (post_heartbeat_renew now (JsonBody (HeartbeatRequest (Some name) (Some addr))) env) =
       env\<lparr>calls := calls env @ [Get name]\<rparr>"
  using assms(3)
proof (cases rule: stored_nodes_cases)
  case 1
  with assms(1,2) show ?thesis
    by (simp add: post_heartbeat_renew_def kv_get_def)
next
  case (2 ttl)
  with assms(1,2) show ?thesis
    by (simp add: post_heartbeat_renew_def kv_get_def)
next
  case (3 ttl)
  from post_heartbeat_renew_unknown [OF assms(1,2) 3 assms(4), of now] show ?thesis
    by simp
qed

lemma post_register_not_json:
  assumes "name \<noteq> []" "addr \<noteq> []" "register_center env name = Some (NotJson, ttl)"
  shows "post_register now (JsonBody (HeartbeatRequest (Some name) (Some addr))) env =
     (Response 500 Register_failed (Some (ErrorData SyntaxError)),
      env\<lparr>calls := calls env @ [Get name]\<rparr>)"
  using assms by (simp add: post_register_def kv_get_def)

lemma post_heartbeat_renew_not_json:
  assumes "name \<noteq> []" "addr \<noteq> []" "register_center env name = Some (NotJson, ttl)"
  shows "post_heartbeat_renew now (JsonBody (HeartbeatRequest (Some name) (Some addr))) env =
     (Response 500 Heartbeat_failed (Some (ErrorData SyntaxError)),
      env\<lparr>calls := calls env @ [Get name]\<rparr>)"
  using assms by (simp add: post_heartbeat_renew_def kv_get_def)


section \<open>Register or renew\<close>

text \<open>
  C1, as the claim states it, fails for \<^verbatim>\<open>POST /register\<close> of the split revision: with
  the address already stored, the record keeps its old \<open>lastHeartbeat\<close>, nothing is put,
  and the reply carries neither outcome nor deadline.
\<close>

theorem register_duplicate_counterexample:
  "post_register 1000 req_a_x (env_a (NodeArray [node_x 20])) =
     (Response 200 Already_registered None,
      \<lparr>register_center = [''a'' \<mapsto> (NodeArray [node_x 20], Some 86400)],
       calls = [Get ''a'']\<rparr>)"
  by (simp add: post_register_def req_a_x_def env_a_def kv_get_def node_x_def)

text \<open>
  C1, amended. On a service whose stored node list is \<open>nodes\<close> (the empty list when the
  key is absent), with both fields present:
  \<^item> \<^verbatim>\<open>POST /heartbeat\<close> of the merged revision does what the claim says: if some record
    has the address, the first such record gets \<open>lastHeartbeat = now\<close> and the outcome
    is \<open>heartbeat\<close>; otherwise a record \<open>(address, now)\<close> is appended and the outcome is
    \<open>register\<close>; either way the whole list is put and \<open>nextDeadline = now + 300000\<close>;
  \<^item> \<^verbatim>\<open>POST /register\<close> of the split revision appends and puts the same list when no
    record has the address, and otherwise answers 200 (already registered) after the
    get alone, with no renewal and no write; its replies carry no outcome or deadline;
  \<^item> \<^verbatim>\<open>POST /heartbeat\<close> of the split revision renews the first matching record, puts
    the list and returns \<open>nextDeadline = now + 300000\<close>, and otherwise answers 404
    after the get alone.
\<close>

theorem register_or_renew:
  assumes "name \<noteq> []" and "addr \<noteq> []" and "stored_nodes env name = Inr nodes"
  shows "if \<exists>r\<in>set nodes. address r = addr
     then \<exists>i<length nodes.
            address (nodes ! i) = addr \<and> (\<forall>j<i. address (nodes ! j) \<noteq> addr) \<and>
            post_heartbeat now (JsonBody (HeartbeatRequest (Some name) (Some addr))) env =
              (Response 200 Heartbeat_ok
                 (Some (UpsertData name addr now (now + 300000) ''heartbeat'')),
               env\<lparr>register_center := (register_center env)
                      (name \<mapsto> (NodeArray (nodes[i := (nodes ! i)\<lparr>lastHeartbeat := now\<rparr>]),
                                Some 86400)),
                   calls := calls env @
                     [Get name,
                      Put name (NodeArray (nodes[i := (nodes ! i)\<lparr>lastHeartbeat := now\<rparr>]))
                        (Some 86400)]\<rparr>) \<and>
            post_heartbeat_renew now (JsonBody (HeartbeatRequest (Some name) (Some addr))) env =
              (Response 200 Heartbeat_ok (Some (RenewData name addr now (now + 300000))),
               env\<lparr>register_center := (register_center env)
                      (name \<mapsto> (NodeArray (nodes[i := (nodes ! i)\<lparr>lastHeartbeat := now\<rparr>]),
                                Some 86400)),
                   calls := calls env @
                     [Get name,
                      Put name (NodeArray (nodes[i := (nodes ! i)\<lparr>lastHeartbeat := now\<rparr>]))
                        (Some 86400)]\<rparr>) \<and>
            post_register now (JsonBody (HeartbeatRequest (Some name) (Some addr))) env =
              (Response 200 Already_registered None, env\<lparr>calls := calls env @ [Get name]\<rparr>)
     else post_heartbeat now (JsonBody (HeartbeatRequest (Some name) (Some addr))) env =
              (Response 200 First_register_ok
                 (Some (UpsertData name addr now (now + 300000) ''register'')),
               env\<lparr>register_center := (register_center env)
                      (name \<mapsto> (NodeArray (nodes @ [\<lparr>address = addr, lastHeartbeat = now\<rparr>]),
                                Some 86400)),
                   calls := calls env @
                     [Get name,
                      Put name (NodeArray (nodes @ [\<lparr>address = addr, lastHeartbeat = now\<rparr>]))
                        (Some 86400)]\<rparr>) \<and>
          post_register now (JsonBody (HeartbeatRequest (Some name) (Some addr))) env =
              (Response 200 Register_ok None,
               env\<lparr>register_center := (register_center env)
                      (name \<mapsto> (NodeArray (nodes @ [\<lparr>address = addr, lastHeartbeat = now\<rparr>]),
                                Some 86400)),
                   calls := calls env @
                     [Get name,
                      Put name (NodeArray (nodes @ [\<lparr>address = addr, lastHeartbeat = now\<rparr>]))
                        (Some 86400)]\<rparr>) \<and>
          code (fst (post_heartbeat_renew now
                       (JsonBody (HeartbeatRequest (Some name) (Some addr))) env)) = 404 \<and>
          snd (post_heartbeat_renew now (JsonBody (HeartbeatRequest (Some name) (Some addr))) env) =
            env\<lparr>calls := calls env @ [Get name]\<rparr>"
proof (cases "\<exists>r\<in>set nodes. address r = addr")
  case True
  then have "findIndex (\<lambda>node. address node = addr) nodes \<noteq> None"
    by (simp add: findIndex_None)
  then obtain i where i: "findIndex (\<lambda>node. address node = addr) nodes = Some i"
    by auto
  from findIndex_Some [OF i]
  have first: "i < length nodes" "address (nodes ! i) = addr" "\<forall>j<i. address (nodes ! j) \<noteq> addr"
    by simp_all
  with post_heartbeat_known [OF assms i, of now] post_heartbeat_renew_known [OF assms i, of now]
    post_register_duplicate [OF assms True, of now] True
  show ?thesis
    by (simp only: if_True) blast
next
  case False
  then have none: "\<forall>r\<in>set nodes. address r \<noteq> addr"
    by simp
  from post_heartbeat_new [OF assms none, of now] post_register_new [OF assms none, of now]
    post_heartbeat_renew_not_found [OF assms none, of now] False
  show ?thesis
    by (simp only: if_False)
qed

theorem register_or_renew_witness:
  "\<exists>i<2. address ([node_y 10, node_x 20] ! i) = ''10.0.0.1'' \<and>
     post_heartbeat 1000 req_a_x (env_a (NodeArray [node_y 10, node_x 20])) =
       (Response 200 Heartbeat_ok (Some (UpsertData ''a'' ''10.0.0.1'' 1000 301000 ''heartbeat'')),
        \<lparr>register_center =
           [''a'' \<mapsto> (NodeArray ([node_y 10, node_x 20]
                         [i := ([node_y 10, node_x 20] ! i)\<lparr>lastHeartbeat := 1000\<rparr>]), Some 86400)],
         calls = [Get ''a'',
                  Put ''a'' (NodeArray ([node_y 10, node_x 20]
                         [i := ([node_y 10, node_x 20] ! i)\<lparr>lastHeartbeat := 1000\<rparr>])) (Some 86400)]\<rparr>) \<and>
     post_register 1000 req_a_x (env_a (NodeArray [node_y 10, node_x 20])) =
       (Response 200 Already_registered None,
        \<lparr>register_center = [''a'' \<mapsto> (NodeArray [node_y 10, node_x 20], Some 86400)],
         calls = [Get ''a'']\<rparr>)"
proof -
  let ?env = "env_a (NodeArray [node_y 10, node_x 20])"
  let ?req = "JsonBody (HeartbeatRequest (Some ''a'') (Some ''10.0.0.1''))"
  have stored: "stored_nodes ?env ''a'' = Inr [node_y 10, node_x 20]"
    by (simp add: stored_nodes_def env_a_def)
  have known: "\<exists>r\<in>set [node_y 10, node_x 20]. address r = ''10.0.0.1''"
    by (simp add: node_x_def)
  have "''a'' \<noteq> []" and "''10.0.0.1'' \<noteq> []"
    by simp_all
  from register_or_renew [OF this stored, of 1000] known
  have "\<exists>i<length [node_y 10, node_x 20].
            address ([node_y 10, node_x 20] ! i) = ''10.0.0.1'' \<and>
            (\<forall>j<i. address ([node_y 10, node_x 20] ! j) \<noteq> ''10.0.0.1'') \<and>
            post_heartbeat 1000 ?req ?env =
              (Response 200 Heartbeat_ok
                 (Some (UpsertData ''a'' ''10.0.0.1'' 1000 (1000 + 300000) ''heartbeat'')),
               ?env\<lparr>register_center := (register_center ?env)
                      (''a'' \<mapsto> (NodeArray ([node_y 10, node_x 20]
                            [i := ([node_y 10, node_x 20] ! i)\<lparr>lastHeartbeat := 1000\<rparr>]),
                                Some 86400)),
                   calls := calls ?env @
                     [Get ''a'',
                      Put ''a'' (NodeArray ([node_y 10, node_x 20]
                            [i := ([node_y 10, node_x 20] ! i)\<lparr>lastHeartbeat := 1000\<rparr>]))
                        (Some 86400)]\<rparr>) \<and>
            post_heartbeat_renew 1000 ?req ?env =
              (Response 200 Heartbeat_ok (Some (RenewData ''a'' ''10.0.0.1'' 1000 (1000 + 300000))),
               ?env\<lparr>register_center := (register_center ?env)
                      (''a'' \<mapsto> (NodeArray ([node_y 10, node_x 20]
                            [i := ([node_y 10, node_x 20] ! i)\<lparr>lastHeartbeat := 1000\<rparr>]),
                                Some 86400)),
                   calls := calls ?env @
                     [Get ''a'',
                      Put ''a'' (NodeArray ([node_y 10, node_x 20]
                            [i := ([node_y 10, node_x 20] ! i)\<lparr>lastHeartbeat := 1000\<rparr>]))
                        (Some 86400)]\<rparr>) \<and>
            post_register 1000 ?req ?env =
              (Response 200 Already_registered None, ?env\<lparr>calls := calls ?env @ [Get ''a'']\<rparr>)"
    by (simp only: if_True)
  then obtain i where "i < length [node_y 10, node_x 20]"
     and "address ([node_y 10, node_x 20] ! i) = ''10.0.0.1''"
     and "post_heartbeat 1000 ?req ?env =
              (Response 200 Heartbeat_ok
                 (Some (UpsertData ''a'' ''10.0.0.1'' 1000 (1000 + 300000) ''heartbeat'')),
               ?env\<lparr>register_center := (register_center ?env)
                      (''a'' \<mapsto> (NodeArray ([node_y 10, node_x 20]
                            [i := ([node_y 10, node_x 20] ! i)\<lparr>lastHeartbeat := 1000\<rparr>]),
                                Some 86400)),
                   calls := calls ?env @
                     [Get ''a'',
                      Put ''a'' (NodeArray ([node_y 10, node_x 20]
                            [i := ([node_y 10, node_x 20] ! i)\<lparr>lastHeartbeat := 1000\<rparr>]))
                        (Some 86400)]\<rparr>)"
     and "post_register 1000 ?req ?env =
              (Response 200 Already_registered None, ?env\<lparr>calls := calls ?env @ [Get ''a'']\<rparr>)"
    by blast
  then show ?thesis
    by (intro exI [of _ i]) (simp add: req_a_x_def env_a_def)
qed


text \<open>
  C8. Two register-or-renew calls for the same service and address, at times \<open>t1\<close> and
  \<open>t2\<close>, starting where the address is not registered: the first reports \<open>register\<close>, the
  second \<open>heartbeat\<close>, and the stored list then holds exactly one record for the address,
  with \<open>lastHeartbeat = t2\<close>.
\<close>

theorem idempotent_renewal:
  assumes "name \<noteq> []" and "addr \<noteq> []" and "stored_nodes env name = Inr nodes"
    and "\<forall>r\<in>set nodes. address r \<noteq> addr"
  shows "fst (post_heartbeat t1 (JsonBody (HeartbeatRequest (Some name) (Some addr))) env) =
           Response 200 First_register_ok
             (Some (UpsertData name addr t1 (t1 + 300000) ''register'')) \<and>
         fst (post_heartbeat t2 (JsonBody (HeartbeatRequest (Some name) (Some addr)))
                (snd (post_heartbeat t1 (JsonBody (HeartbeatRequest (Some name) (Some addr))) env))) =
           Response 200 Heartbeat_ok
             (Some (UpsertData name addr t2 (t2 + 300000) ''heartbeat'')) \<and>
         register_center
           (snd (post_heartbeat t2 (JsonBody (HeartbeatRequest (Some name) (Some addr)))
                (snd (post_heartbeat t1 (JsonBody (HeartbeatRequest (Some name) (Some addr))) env))))
           name =
           Some (NodeArray (nodes @ [\<lparr>address = addr, lastHeartbeat = t2\<rparr>]), Some 86400) \<and>
         filter (\<lambda>r. address r = addr) (nodes @ [\<lparr>address = addr, lastHeartbeat = t2\<rparr>]) =
           [\<lparr>address = addr, lastHeartbeat = t2\<rparr>]"
proof -
  let ?req = "JsonBody (HeartbeatRequest (Some name) (Some addr))"
  let ?n1 = "\<lparr>address = addr, lastHeartbeat = t1\<rparr>"
  let ?env1 = "snd (post_heartbeat t1 ?req env)"
  note first = post_heartbeat_new [OF assms, of t1]
  have stored1: "stored_nodes ?env1 name = Inr (nodes @ [?n1])"
    by (simp add: first stored_nodes_def)
  have idx: "findIndex (\<lambda>node. address node = addr) (nodes @ [?n1]) = Some (length nodes)"
    using assms(4) by (simp add: findIndex_append_new)
  note second = post_heartbeat_known [OF assms(1,2) stored1 idx, of t2]
  have one: "filter (\<lambda>r. address r = addr) nodes = []"
    using assms(4) by (simp add: filter_empty_conv)
  from second show ?thesis
    by (simp add: first one)
qed

theorem idempotent_renewal_witness:
  "fst (post_heartbeat 1000 req_a_x (env_a (NodeArray [node_y 10]))) =
     Response 200 First_register_ok (Some (UpsertData ''a'' ''10.0.0.1'' 1000 301000 ''register'')) \<and>
   fst (post_heartbeat 2000 req_a_x (snd (post_heartbeat 1000 req_a_x (env_a (NodeArray [node_y 10]))))) =
     Response 200 Heartbeat_ok (Some (UpsertData ''a'' ''10.0.0.1'' 2000 302000 ''heartbeat'')) \<and>
   register_center
     (snd (post_heartbeat 2000 req_a_x (snd (post_heartbeat 1000 req_a_x (env_a (NodeArray [node_y 10]))))))
     ''a'' = Some (NodeArray [node_y 10, node_x 2000], Some 86400)"
proof -
  have stored: "stored_nodes (env_a (NodeArray [node_y 10])) ''a'' = Inr [node_y 10]"
    by (simp add: stored_nodes_def env_a_def)
  have fresh: "\<forall>r\<in>set [node_y 10]. address r \<noteq> ''10.0.0.1''"
    by (simp add: node_y_def)
  have "''a'' \<noteq> []" and "''10.0.0.1'' \<noteq> []"
    by simp_all
  from idempotent_renewal [OF this stored fresh, of 1000 2000] show ?thesis
    by (simp add: req_a_x_def node_x_def)
qed

text \<open>
  C2. A node is expired exactly when \<open>now - lastHeartbeat > 300000\<close>. Hence discover on
  a service with stored nodes leaves out every record with \<open>lastHeartbeat = now - 300001\<close>
  and returns every record with \<open>lastHeartbeat = now - 299999\<close>.
\<close>

theorem expiry_boundary:
  "(isNodeExpired now node \<longleftrightarrow> now - lastHeartbeat node > 300000) \<and>
   (name \<noteq> [] \<longrightarrow> register_center env name = Some (NodeArray nodes, ttl) \<longrightarrow>
      (\<exists>act. fst (get_discover now (Some name) env) =
                Response 200 Discover_ok
                  (Some (DiscoverData name (length act) (map address act) act)) \<and>
         (\<forall>r\<in>set nodes.
            (lastHeartbeat r = now - 300001 \<longrightarrow> r \<notin> set act) \<and>
            (lastHeartbeat r = now - 299999 \<longrightarrow> r \<in> set act))))"
proof (intro conjI impI)
  show "isNodeExpired now node \<longleftrightarrow> now - lastHeartbeat node > 300000"
    by (simp add: isNodeExpired_def HEARTBEAT_EXPIRE_def)
next
  assume name: "name \<noteq> []" and stored: "register_center env name = Some (NodeArray nodes, ttl)"
  let ?act = "filter (\<lambda>node. \<not> isNodeExpired now node) nodes"
  have "fst (get_discover now (Some name) env) =
          Response 200 Discover_ok
            (Some (DiscoverData name (length ?act) (map address ?act) ?act))"
    using name by (simp add: get_discover_def cleanExpiredNodes_nodes [OF stored] Let_def)
  moreover have "\<forall>r\<in>set nodes.
            (lastHeartbeat r = now - 300001 \<longrightarrow> r \<notin> set ?act) \<and>
            (lastHeartbeat r = now - 299999 \<longrightarrow> r \<in> set ?act)"
    by (simp add: isNodeExpired_def HEARTBEAT_EXPIRE_def)
  ultimately show "\<exists>act. fst (get_discover now (Some name) env) =
                Response 200 Discover_ok
                  (Some (DiscoverData name (length act) (map address act) act)) \<and>
         (\<forall>r\<in>set nodes.
            (lastHeartbeat r = now - 300001 \<longrightarrow> r \<notin> set act) \<and>
            (lastHeartbeat r = now - 299999 \<longrightarrow> r \<in> set act))"
    by blast
qed

theorem expiry_boundary_witness:
  "isNodeExpired 1000000 (node_x 699999) \<and> \<not> isNodeExpired 1000000 (node_y 700001) \<and>
   fst (get_discover 1000000 (Some ''a'') (env_a (NodeArray [node_x 699999, node_y 700001]))) =
     Response 200 Discover_ok (Some (DiscoverData ''a'' 1 [''10.0.0.2''] [node_y 700001]))"
proof -
  let ?env = "env_a (NodeArray [node_x 699999, node_y 700001])"
  have stored: "register_center ?env ''a'' =
      Some (NodeArray [node_x 699999, node_y 700001], Some 86400)"
    by (simp add: env_a_def)
  from expiry_boundary [of 1000000 "node_x 699999" "''a''" ?env
      "[node_x 699999, node_y 700001]" "Some 86400"] stored
  obtain act where x: "isNodeExpired 1000000 (node_x 699999)"
    and reply: "fst (get_discover 1000000 (Some ''a'') ?env) =
        Response 200 Discover_ok (Some (DiscoverData ''a'' (length act) (map address act) act))"
    and out: "node_x 699999 \<notin> set act" and inside: "node_y 700001 \<in> set act"
    by (auto simp: node_x_def node_y_def)
  have y: "\<not> isNodeExpired 1000000 (node_y 700001)"
    using expiry_boundary [of 1000000 "node_y 700001" "''a''" ?env
      "[node_x 699999, node_y 700001]" "Some 86400"]
    by (simp add: node_y_def)
  have addr_y: "address (node_y 700001) = ''10.0.0.2''"
    by (simp add: node_y_def)
  have "fst (get_discover 1000000 (Some ''a'') ?env) =
     Response 200 Discover_ok (Some (DiscoverData ''a'' 1 [''10.0.0.2''] [node_y 700001]))"
    by (simp add: get_discover_def cleanExpiredNodes_nodes [OF stored] x y addr_y Let_def)
  with x y show ?thesis by simp
qed

text \<open>
  C10. When \<open>serviceName\<close> or \<open>address\<close> of the request body is the empty string, or is
  missing, each of register, heartbeat (both revisions) and unregister answers 400 and
  makes no call on the namespace: the environment, calls included, is unchanged.
\<close>

theorem empty_field_bad_request:
  assumes "sn = Some [] \<or> a = Some [] \<or> sn = None \<or> a = None"
  shows "post_heartbeat now (JsonBody (HeartbeatRequest sn a)) env =
           (Response 400 Missing_fields None, env) \<and>
         post_register now (JsonBody (HeartbeatRequest sn a)) env =
           (Response 400 Missing_fields None, env) \<and>
         post_heartbeat_renew now (JsonBody (HeartbeatRequest sn a)) env =
           (Response 400 Missing_fields None, env) \<and>
         post_unregister (JsonBody (HeartbeatRequest sn a)) env =
           (Response 400 Missing_fields None, env)"
proof -
  from assms have "falsy sn \<or> falsy a"
    by (auto simp: falsy_iff)
  then show ?thesis
    by (simp only: post_heartbeat_falsy post_register_falsy post_heartbeat_renew_falsy
        post_unregister_falsy)
qed

theorem empty_field_bad_request_witness:
  "post_heartbeat 5 (JsonBody (HeartbeatRequest (Some ''a'') (Some ''''))) (env_a (NodeArray [node_x 1])) =
     (Response 400 Missing_fields None, env_a (NodeArray [node_x 1])) \<and>
   post_register 5 (JsonBody (HeartbeatRequest (Some ''a'') (Some ''''))) (env_a (NodeArray [node_x 1])) =
     (Response 400 Missing_fields None, env_a (NodeArray [node_x 1])) \<and>
   post_heartbeat_renew 5 (JsonBody (HeartbeatRequest (Some ''a'') (Some ''''))) (env_a (NodeArray [node_x 1])) =
     (Response 400 Missing_fields None, env_a (NodeArray [node_x 1])) \<and>
   post_unregister (JsonBody (HeartbeatRequest (Some ''a'') (Some ''''))) (env_a (NodeArray [node_x 1])) =
     (Response 400 Missing_fields None, env_a (NodeArray [node_x 1])) \<and>
   calls (snd (post_unregister (JsonBody (HeartbeatRequest (Some ''a'') (Some ''''))) (env_a (NodeArray [node_x 1])))) = []"
  using empty_field_bad_request [of "Some ''a''" "Some ''''" 5 "env_a (NodeArray [node_x 1])"]
  by (simp add: env_a_def)

text \<open>
  C3. Unregister with both fields present: on an absent key it answers 404 (service
  not registered) and leaves the store as it is; on a key whose node list has no record
  with the address it answers 404 (node not registered) and leaves the store as it is;
  otherwise the records with the address are filtered out, the rest is written under the
  key when non-empty and the key is deleted when empty, and a second unregister of the
  same address answers 404.
\<close>

theorem remove_node:
  assumes "name \<noteq> []" and "addr \<noteq> []"
  shows "(register_center env name = None \<longrightarrow>
            fst (post_unregister (JsonBody (HeartbeatRequest (Some name) (Some addr))) env) =
              Response 404 Service_not_registered None \<and>
            register_center
              (snd (post_unregister (JsonBody (HeartbeatRequest (Some name) (Some addr))) env)) =
              register_center env) \<and>
         (register_center env name = Some (NodeArray nodes, ttl) \<longrightarrow>
          (\<forall>r\<in>set nodes. address r \<noteq> addr) \<longrightarrow>
            fst (post_unregister (JsonBody (HeartbeatRequest (Some name) (Some addr))) env) =
              Response 404 Node_not_registered None \<and>
            register_center
              (snd (post_unregister (JsonBody (HeartbeatRequest (Some name) (Some addr))) env)) =
              register_center env) \<and>
         (register_center env name = Some (NodeArray nodes, ttl) \<longrightarrow>
          (\<exists>r\<in>set nodes. address r = addr) \<longrightarrow>
            fst (post_unregister (JsonBody (HeartbeatRequest (Some name) (Some addr))) env) =
              Response 200 Unregister_ok None \<and>
            register_center
              (snd (post_unregister (JsonBody (HeartbeatRequest (Some name) (Some addr))) env)) =
              (if filter (\<lambda>node. address node \<noteq> addr) nodes \<noteq> []
               then (register_center env)
                      (name \<mapsto> (NodeArray (filter (\<lambda>node. address node \<noteq> addr) nodes), None))
               else (register_center env)(name := None)) \<and>
            code (fst (post_unregister (JsonBody (HeartbeatRequest (Some name) (Some addr)))
                    (snd (post_unregister
                            (JsonBody (HeartbeatRequest (Some name) (Some addr))) env)))) = 404)"
proof (intro conjI impI)
  let ?req = "JsonBody (HeartbeatRequest (Some name) (Some addr))"
  {
    assume absent: "register_center env name = None"
    note run = post_unregister_absent [OF assms absent]
    show "fst (post_unregister ?req env) = Response 404 Service_not_registered None"
      by (simp add: run)
    show "register_center (snd (post_unregister ?req env)) = register_center env"
      by (simp add: run)
  }
  {
    assume stored: "register_center env name = Some (NodeArray nodes, ttl)"
      and unknown: "\<forall>r\<in>set nodes. address r \<noteq> addr"
    note run = post_unregister_unknown [OF assms stored unknown]
    show "fst (post_unregister ?req env) = Response 404 Node_not_registered None"
      by (simp add: run)
    show "register_center (snd (post_unregister ?req env)) = register_center env"
      by (simp add: run)
  }
  {
    assume stored: "register_center env name = Some (NodeArray nodes, ttl)"
      and known: "\<exists>r\<in>set nodes. address r = addr"
    let ?rest = "filter (\<lambda>node. address node \<noteq> addr) nodes"
    let ?env1 = "snd (post_unregister ?req env)"
    note run = post_unregister_known [OF assms stored known]
    show "fst (post_unregister ?req env) = Response 200 Unregister_ok None"
      by (simp add: run)
    show after: "register_center ?env1 =
        (if ?rest \<noteq> [] then (register_center env)(name \<mapsto> (NodeArray ?rest, None))
         else (register_center env)(name := None))"
      by (simp add: run Let_def)
    show "code (fst (post_unregister ?req ?env1)) = 404"
    proof (cases "?rest = []")
      case True
      with after have "register_center ?env1 name = None"
        by simp
      from post_unregister_absent [OF assms this] show ?thesis
        by simp
    next
      case False
      with after have stored1: "register_center ?env1 name = Some (NodeArray ?rest, None)"
        by simp
      have "\<forall>r\<in>set ?rest. address r \<noteq> addr"
        by simp
      from post_unregister_unknown [OF assms stored1 this] show ?thesis
        by simp
    qed
  }
qed

theorem remove_node_witness:
  "fst (post_unregister req_a_x (env_a (NodeArray [node_x 1, node_y 2]))) =
     Response 200 Unregister_ok None \<and>
   register_center (snd (post_unregister req_a_x (env_a (NodeArray [node_x 1, node_y 2])))) =
     [''a'' \<mapsto> (NodeArray [node_y 2], None)] \<and>
   code (fst (post_unregister req_a_x
                (snd (post_unregister req_a_x (env_a (NodeArray [node_x 1, node_y 2])))))) = 404 \<and>
   fst (post_unregister req_a_x env_none) = Response 404 Service_not_registered None \<and>
   fst (post_unregister req_a_x (env_a (NodeArray [node_y 2]))) =
     Response 404 Node_not_registered None"
proof -
  have ne: "''a'' \<noteq> []" "''10.0.0.1'' \<noteq> []"
    by simp_all
  have "register_center (env_a (NodeArray [node_x 1, node_y 2])) ''a'' =
          Some (NodeArray [node_x 1, node_y 2], Some 86400)"
    and "\<exists>r\<in>set [node_x 1, node_y 2]. address r = ''10.0.0.1''"
    by (simp_all add: env_a_def node_x_def)
  with remove_node [OF ne, of "env_a (NodeArray [node_x 1, node_y 2])" "[node_x 1, node_y 2]"
      "Some 86400"]
  have known: "fst (post_unregister req_a_x (env_a (NodeArray [node_x 1, node_y 2]))) =
     Response 200 Unregister_ok None \<and>
   register_center (snd (post_unregister req_a_x (env_a (NodeArray [node_x 1, node_y 2])))) =
     [''a'' \<mapsto> (NodeArray [node_y 2], None)] \<and>
   code (fst (post_unregister req_a_x
                (snd (post_unregister req_a_x (env_a (NodeArray [node_x 1, node_y 2])))))) = 404"
    by (simp add: req_a_x_def env_a_def node_x_def node_y_def)
  have "register_center env_none ''a'' = None"
    by (simp add: env_none_def)
  with remove_node [OF ne, of env_none]
  have absent: "fst (post_unregister req_a_x env_none) = Response 404 Service_not_registered None"
    by (simp add: req_a_x_def)
  have "register_center (env_a (NodeArray [node_y 2])) ''a'' = Some (NodeArray [node_y 2], Some 86400)"
    and "\<forall>r\<in>set [node_y 2]. address r \<noteq> ''10.0.0.1''"
    by (simp_all add: env_a_def node_y_def)
  with remove_node [OF ne, of "env_a (NodeArray [node_y 2])" "[node_y 2]" "Some 86400"]
  have unknown: "fst (post_unregister req_a_x (env_a (NodeArray [node_y 2]))) =
     Response 404 Node_not_registered None"
    by (simp add: req_a_x_def)
  from known absent unknown show ?thesis
    by simp
qed

section \<open>The pass on one key, and the sweep\<close>

lemma cleanExpiredNodes_store:
  "register_center (snd (cleanExpiredNodes now env name)) =
     (register_center env)(name := compacted now (register_center env name))"
proof (cases rule: entry_cases [of env name])
  case absent
  then show ?thesis
    by (simp add: cleanExpiredNodes_absent fun_upd_idem)
next
  case (empty_string ttl)
  then show ?thesis
    by (simp add: cleanExpiredNodes_empty_string [OF empty_string] fun_upd_idem)
next
  case (nodes nodes ttl)
  then show ?thesis
    by (simp add: cleanExpiredNodes_nodes [OF nodes] Let_def KV_DEFAULT_TTL_def)
next
  case (not_json ttl)
  then show ?thesis
    by (simp add: cleanExpiredNodes_not_json [OF not_json] fun_upd_idem)
qed

lemma cleanExpiredNodes_result:
  "fst (cleanExpiredNodes now env name) =
     (case register_center env name of
        None \<Rightarrow> Inr []
      | Some (EmptyString, ttl) \<Rightarrow> Inr []
      | Some (NodeArray nodes, ttl) \<Rightarrow> Inr (filter (\<lambda>node. \<not> isNodeExpired now node) nodes)
      | Some (NotJson, ttl) \<Rightarrow> Inl SyntaxError)"
  by (simp add: cleanExpiredNodes_def kv_get_def Let_def split: option.split kv_text.split)

lemma cleanExpiredNodes_calls:
  "\<exists>cs. calls (snd (cleanExpiredNodes now env name)) = calls env @ cs \<and> list_all nonempty_put cs"
proof (cases rule: entry_cases [of env name])
  case absent
  then show ?thesis
    by (simp add: cleanExpiredNodes_absent)
next
  case (empty_string ttl)
  then show ?thesis
    by (simp add: cleanExpiredNodes_empty_string [OF empty_string])
next
  case (nodes nodes ttl)
  then show ?thesis
    by (simp add: cleanExpiredNodes_nodes [OF nodes] Let_def)
next
  case (not_json ttl)
  then show ?thesis
    by (simp add: cleanExpiredNodes_not_json [OF not_json])
qed

lemma compacted_no_empty: "entry \<noteq> Some (NodeArray [], ttl) \<Longrightarrow> compacted now entry \<noteq> Some (NodeArray [], ttl')"
  by (cases "(now, entry)" rule: compacted.cases) (simp_all add: Let_def)

lemma compacted_twice: "compacted now (compacted now entry) = compacted now entry"
  by (cases "(now, entry)" rule: compacted.cases) (simp_all add: Let_def)

lemma cleanExpiredNodes_no_empty:
  "no_empty_entry (register_center env) \<Longrightarrow>
   no_empty_entry (register_center (snd (cleanExpiredNodes now env name)))"
  unfolding no_empty_entry_def cleanExpiredNodes_store
  by (auto simp: compacted_no_empty)

lemma sweep_keys_calls:
  "\<exists>cs. calls (snd (sweep_keys now keys env)) = calls env @ cs \<and> list_all nonempty_put cs"
proof (induction keys arbitrary: env)
  case Nil
  show ?case by simp
next
  case (Cons key keys)
  obtain res env' where step: "cleanExpiredNodes now env key = (res, env')"
    by (cases "cleanExpiredNodes now env key")
  from cleanExpiredNodes_calls [of now env key] step
  obtain cs where cs: "calls env' = calls env @ cs" "list_all nonempty_put cs"
    by auto
  show ?case
  proof (cases res)
    case (Inl e)
    with step cs show ?thesis by simp
  next
    case (Inr act)
    from Cons.IH [of env'] obtain cs' where
      cs': "calls (snd (sweep_keys now keys env')) = calls env' @ cs'" "list_all nonempty_put cs'"
      by auto
    from Inr step cs cs' have "calls (snd (sweep_keys now (key # keys) env)) = calls env @ (cs @ cs')"
      by simp
    moreover from cs cs' have "list_all nonempty_put (cs @ cs')"
      by simp
    ultimately show ?thesis by blast
  qed
qed

lemma sweep_keys_no_empty:
  "no_empty_entry (register_center env) \<Longrightarrow>
   no_empty_entry (register_center (snd (sweep_keys now keys env)))"
proof (induction keys arbitrary: env)
  case Nil
  then show ?case by simp
next
  case (Cons key keys)
  obtain res env' where step: "cleanExpiredNodes now env key = (res, env')"
    by (cases "cleanExpiredNodes now env key")
  from cleanExpiredNodes_no_empty [OF Cons.prems, of now key] step
  have inv: "no_empty_entry (register_center env')"
    by simp
  show ?case
  proof (cases res)
    case (Inl e)
    with step inv show ?thesis by simp
  next
    case (Inr act)
    with step Cons.IH [OF inv] show ?thesis by simp
  qed
qed

text \<open>A sweep over keys none of which holds unparsable text visits them all.\<close>

lemma sweep_keys_well_formed:
  "\<forall>key\<in>set keys. \<forall>ttl. register_center env key \<noteq> Some (NotJson, ttl) \<Longrightarrow>
   fst (sweep_keys now keys env) = Inr () \<and>
   register_center (snd (sweep_keys now keys env)) =
     (\<lambda>key. if key \<in> set keys then compacted now (register_center env key)
            else register_center env key)"
proof (induction keys arbitrary: env)
  case Nil
  show ?case by simp
next
  case (Cons key keys)
  obtain res env' where step: "cleanExpiredNodes now env key = (res, env')"
    by (cases "cleanExpiredNodes now env key")
  from Cons.prems have "\<forall>ttl. register_center env key \<noteq> Some (NotJson, ttl)"
    by simp
  with cleanExpiredNodes_result [of now env key] step obtain act where res: "res = Inr act"
    by (auto split: option.splits kv_text.splits)
  from cleanExpiredNodes_store [of now env key] step
  have store': "register_center env' = (register_center env)(key := compacted now (register_center env key))"
    by simp
  have "\<forall>k\<in>set keys. \<forall>ttl. register_center env' k \<noteq> Some (NotJson, ttl)"
  proof (intro ballI allI)
    fix k ttl
    assume k: "k \<in> set keys"
    with Cons.prems have a: "\<forall>ttl. register_center env k \<noteq> Some (NotJson, ttl)"
      by simp
    from Cons.prems have b: "\<forall>ttl. register_center env key \<noteq> Some (NotJson, ttl)"
      by simp
    have "compacted now (register_center env key) \<noteq> Some (NotJson, ttl)"
      using b by (cases "(now, register_center env key)" rule: compacted.cases)
        (simp_all add: Let_def)
    with a show "register_center env' k \<noteq> Some (NotJson, ttl)"
      by (simp add: store')
  qed
  from Cons.IH [OF this] have
    ih: "fst (sweep_keys now keys env') = Inr ()"
      "register_center (snd (sweep_keys now keys env')) =
        (\<lambda>k. if k \<in> set keys then compacted now (register_center env' k)
              else register_center env' k)"
    by simp_all
  from step res ih(1) have "fst (sweep_keys now (key # keys) env) = Inr ()"
    by simp
  moreover from step res ih(2) have "register_center (snd (sweep_keys now (key # keys) env)) =
     (\<lambda>k. if k \<in> set (key # keys) then compacted now (register_center env k)
            else register_center env k)"
    by (auto simp: store' compacted_twice)
  ultimately show ?case by simp
qed

text \<open>A sweep stops at the first key that holds unparsable text.\<close>

lemma sweep_keys_append_bad:
  assumes "\<forall>key\<in>set pre. \<forall>ttl. register_center env key \<noteq> Some (NotJson, ttl)"
    and "register_center env bad = Some (NotJson, ttl)"
  shows "sweep_keys now (pre @ bad # post) env =
     (Inl SyntaxError,
      (snd (sweep_keys now pre env))\<lparr>calls := calls (snd (sweep_keys now pre env)) @ [Get bad]\<rparr>)"
  using assms
proof (induction pre arbitrary: env)
  case Nil
  then show ?case
    by (simp add: cleanExpiredNodes_not_json)
next
  case (Cons key pre)
  obtain res env' where step: "cleanExpiredNodes now env key = (res, env')"
    by (cases "cleanExpiredNodes now env key")
  from Cons.prems have wf: "\<forall>ttl. register_center env key \<noteq> Some (NotJson, ttl)"
    by simp
  with cleanExpiredNodes_result [of now env key] step obtain act where res: "res = Inr act"
    by (auto split: option.splits kv_text.splits)
  from cleanExpiredNodes_store [of now env key] step
  have store': "register_center env' = (register_center env)(key := compacted now (register_center env key))"
    by simp
  from wf Cons.prems(2) have "key \<noteq> bad"
    by auto
  with Cons.prems(2) have bad': "register_center env' bad = Some (NotJson, ttl)"
    by (simp add: store')
  have "\<forall>k\<in>set pre. \<forall>ttl. register_center env' k \<noteq> Some (NotJson, ttl)"
  proof (intro ballI allI)
    fix k ttl
    assume k: "k \<in> set pre"
    with Cons.prems have a: "\<forall>ttl. register_center env k \<noteq> Some (NotJson, ttl)"
      by simp
    have "compacted now (register_center env key) \<noteq> Some (NotJson, ttl)"
      using wf by (cases "(now, register_center env key)" rule: compacted.cases)
        (simp_all add: Let_def)
    with a show "register_center env' k \<noteq> Some (NotJson, ttl)"
      by (simp add: store')
  qed
  from Cons.IH [OF this bad'] step res show ?case
    by simp
qed

lemma sweep_keys_corrupt:
  assumes "key \<in> set keys" and "register_center env key = Some (NotJson, ttl)"
  shows "fst (sweep_keys now keys env) = Inl SyntaxError"
proof -
  let ?bad = "\<lambda>k. \<exists>ttl. register_center env k = Some (NotJson, ttl)"
  from assms have "\<exists>k\<in>set keys. ?bad k"
    by blast
  then obtain pre bad post where split: "keys = pre @ bad # post" "?bad bad" "\<forall>k\<in>set pre. \<not> ?bad k"
    by (auto simp: split_list_first_prop_iff)
  from split(2) obtain ttl' where bad: "register_center env bad = Some (NotJson, ttl')"
    by blast
  from split(3) have "\<forall>k\<in>set pre. \<forall>ttl. register_center env k \<noteq> Some (NotJson, ttl)"
    by simp
  from sweep_keys_append_bad [OF this bad, of now post] split(1) show ?thesis
    by simp
qed

section \<open>Discover\<close>

text \<open>
  C5. Discover on a service whose key is absent or holds a node array: the reply lists
  the nodes that are not expired (with their count and addresses), the reply and the
  resulting environment are those of one expire-and-compact pass on that key, and the
  store afterwards holds the active nodes under the key when there are some and no such
  key otherwise. With no active node, absent key included, the reply is the 200 reply
  with \<open>activeCount = 0\<close> and empty lists.
\<close>

theorem discover_is_compaction:
  assumes "name \<noteq> []"
    and "register_center env name = None \<and> nodes = [] \<or>
         (\<exists>ttl. register_center env name = Some (NodeArray nodes, ttl))"
  shows "let act = filter (\<lambda>node. \<not> now - lastHeartbeat node > 300000) nodes in
     fst (cleanExpiredNodes now env name) = Inr act \<and>
     get_discover now (Some name) env =
       (Response 200 Discover_ok (Some (DiscoverData name (length act) (map address act) act)),
        snd (cleanExpiredNodes now env name)) \<and>
     register_center (snd (get_discover now (Some name) env)) =
       (if act \<noteq> [] then (register_center env)(name \<mapsto> (NodeArray act, Some 86400))
        else (register_center env)(name := None)) \<and>
     (act = [] \<longrightarrow>
        fst (get_discover now (Some name) env) =
          Response 200 Discover_ok (Some (DiscoverData name 0 [] [])))"
proof -
  have expired: "\<And>node. isNodeExpired now node \<longleftrightarrow> now - lastHeartbeat node > 300000"
    by (simp add: isNodeExpired_def HEARTBEAT_EXPIRE_def)
  from assms(2) show ?thesis
  proof (elim disjE conjE exE)
    assume absent: "register_center env name = None" and "nodes = []"
    with assms(1) show ?thesis
      by (simp add: get_discover_def cleanExpiredNodes_absent fun_upd_idem)
  next
    fix ttl
    assume stored: "register_center env name = Some (NodeArray nodes, ttl)"
    with assms(1) show ?thesis
      by (simp add: get_discover_def cleanExpiredNodes_nodes [OF stored] Let_def expired)
  qed
qed

theorem discover_is_compaction_witness:
  "get_discover 1000000 (Some ''a'') (env_a (NodeArray [node_x 0, node_y 900000])) =
     (Response 200 Discover_ok (Some (DiscoverData ''a'' 1 [''10.0.0.2''] [node_y 900000])),
      snd (cleanExpiredNodes 1000000 (env_a (NodeArray [node_x 0, node_y 900000])) ''a'')) \<and>
   register_center
     (snd (get_discover 1000000 (Some ''a'') (env_a (NodeArray [node_x 0, node_y 900000])))) =
     [''a'' \<mapsto> (NodeArray [node_y 900000], Some 86400)] \<and>
   fst (get_discover 1000000 (Some ''a'') env_none) =
     Response 200 Discover_ok (Some (DiscoverData ''a'' 0 [] []))"
proof -
  have ne: "''a'' \<noteq> []"
    by simp
  have "register_center env_none ''a'' = None \<and> ([]::ServiceNode list) = [] \<or>
        (\<exists>ttl. register_center env_none ''a'' = Some (NodeArray [], ttl))"
    by (simp add: env_none_def)
  from discover_is_compaction [OF ne this, of 1000000]
  have absent: "fst (get_discover 1000000 (Some ''a'') env_none) =
     Response 200 Discover_ok (Some (DiscoverData ''a'' 0 [] []))"
    by (simp add: Let_def)
  let ?env = "env_a (NodeArray [node_x 0, node_y 900000])"
  have "register_center ?env ''a'' = None \<and> [node_x 0, node_y 900000] = [] \<or>
        (\<exists>ttl. register_center ?env ''a'' = Some (NodeArray [node_x 0, node_y 900000], ttl))"
    by (simp add: env_a_def)
  from discover_is_compaction [OF ne this, of 1000000]
  have "get_discover 1000000 (Some ''a'') ?env =
     (Response 200 Discover_ok (Some (DiscoverData ''a'' 1 [''10.0.0.2''] [node_y 900000])),
      snd (cleanExpiredNodes 1000000 ?env ''a'')) \<and>
   register_center (snd (get_discover 1000000 (Some ''a'') ?env)) =
     [''a'' \<mapsto> (NodeArray [node_y 900000], Some 86400)]"
    by (clarsimp simp: node_x_def node_y_def env_a_def Let_def)
  with absent show ?thesis
    by blast
qed

section \<open>Sweep and corrupt payloads\<close>

text \<open>
  C6, as the claim states it, fails: with unparsable text under \<open>a\<close> and one expired node
  under \<open>b\<close>, the sweep over \<open>a, b\<close> throws at \<open>a\<close> and leaves \<open>b\<close> as it was, although
  the pass on \<open>b\<close> alone deletes it.
\<close>

theorem sweep_isolation_counterexample:
  "fst (cleanAllExpiredNodes 1000000 [''a'', ''b''] (env_a_b NotJson (NodeArray [node_x 0]))) =
     Inl SyntaxError \<and>
   register_center
     (snd (cleanAllExpiredNodes 1000000 [''a'', ''b''] (env_a_b NotJson (NodeArray [node_x 0]))))
     ''b'' = Some (NodeArray [node_x 0], Some 86400) \<and>
   register_center
     (snd (cleanExpiredNodes 1000000 (env_a_b NotJson (NodeArray [node_x 0])) ''b'')) ''b'' = None"
  by (simp add: cleanAllExpiredNodes_def cleanExpiredNodes_def kv_get_def kv_delete_def
      env_a_b_def isNodeExpired_def HEARTBEAT_EXPIRE_def node_x_def)

text \<open>
  C6, amended. The sweep applies the pass to the enumerated keys in order until the first
  key that holds non-empty text that fails to parse: the keys before it are compacted (a
  key holding the empty string is passed over unchanged), the exception leaves the sweep
  and the health handler, and that key and every key not visited before it are left as
  they were.
\<close>

theorem sweep_stops_at_corrupt:
  assumes "\<forall>key\<in>set pre. \<forall>ttl. register_center env key \<noteq> Some (NotJson, ttl)"
    and "register_center env bad = Some (NotJson, ttl)"
  shows "fst (cleanAllExpiredNodes now (pre @ bad # post) env) = Inl SyntaxError \<and>
         fst (get_health now (pre @ bad # post) env) = Inl SyntaxError \<and>
         register_center (snd (cleanAllExpiredNodes now (pre @ bad # post) env)) =
           (\<lambda>key. if key \<in> set pre then compacted now (register_center env key)
                  else register_center env key)"
proof -
  let ?env = "env\<lparr>calls := calls env @ [List]\<rparr>"
  from assms have pre: "\<forall>key\<in>set pre. \<forall>ttl. register_center ?env key \<noteq> Some (NotJson, ttl)"
    and bad: "register_center ?env bad = Some (NotJson, ttl)"
    by simp_all
  note run = sweep_keys_append_bad [OF pre bad, of now post]
  have same: "register_center ?env = register_center env"
    by simp
  from sweep_keys_well_formed [OF pre, of now]
  have store: "register_center (snd (sweep_keys now pre ?env)) =
      (\<lambda>key. if key \<in> set pre then compacted now (register_center env key)
             else register_center env key)"
    unfolding same by (rule conjunct2)
  show ?thesis
    by (simp add: cleanAllExpiredNodes_def get_health_def run store)
qed

theorem sweep_stops_at_corrupt_witness:
  "fst (cleanAllExpiredNodes 1000000 [''a'', ''b''] (env_a_b (NodeArray [node_x 0]) NotJson)) =
     Inl SyntaxError \<and>
   fst (get_health 1000000 [''a'', ''b''] (env_a_b (NodeArray [node_x 0]) NotJson)) =
     Inl SyntaxError \<and>
   register_center
     (snd (cleanAllExpiredNodes 1000000 [''a'', ''b''] (env_a_b (NodeArray [node_x 0]) NotJson))) =
     [''b'' \<mapsto> (NotJson, Some 86400)]"
proof -
  let ?env = "env_a_b (NodeArray [node_x 0]) NotJson"
  have pre: "\<forall>key\<in>set [''a'']. \<forall>ttl. register_center ?env key \<noteq> Some (NotJson, ttl)"
    by (simp add: env_a_b_def)
  have bad: "register_center ?env ''b'' = Some (NotJson, Some 86400)"
    by (simp add: env_a_b_def)
  have "(\<lambda>key. if key \<in> set [''a''] then compacted 1000000 (register_center ?env key)
                  else register_center ?env key) = [''b'' \<mapsto> (NotJson, Some 86400)]"
    by (rule ext)
      (simp add: env_a_b_def isNodeExpired_def HEARTBEAT_EXPIRE_def node_x_def)
  with sweep_stops_at_corrupt [OF pre bad, of 1000000 "[]"] show ?thesis
    by simp
qed

section \<open>Writes of every operation\<close>

lemma findIndex_Some_nonempty: "findIndex P xs = Some i \<Longrightarrow> xs \<noteq> []"
  by (cases xs) simp_all

lemma no_empty_entry_put:
  "no_empty_entry store \<Longrightarrow> nodes \<noteq> [] \<Longrightarrow> no_empty_entry (store(key \<mapsto> (NodeArray nodes, ttl)))"
  by (simp add: no_empty_entry_def)

lemma no_empty_entry_delete:
  "no_empty_entry store \<Longrightarrow> no_empty_entry (store(key := None))"
  by (simp add: no_empty_entry_def)

lemma post_heartbeat_writes:
  "(\<exists>cs. calls (snd (post_heartbeat now req env)) = calls env @ cs \<and> list_all nonempty_put cs) \<and>
   (no_empty_entry (register_center env) \<longrightarrow>
      no_empty_entry (register_center (snd (post_heartbeat now req env))))"
  by (auto simp: post_heartbeat_def kv_get_def kv_put_def JSON_stringify_def Let_def
      no_empty_entry_put
      split: sum.splits option.splits prod.splits
      dest: findIndex_Some_nonempty)

lemma post_register_writes:
  "(\<exists>cs. calls (snd (post_register now req env)) = calls env @ cs \<and> list_all nonempty_put cs) \<and>
   (no_empty_entry (register_center env) \<longrightarrow>
      no_empty_entry (register_center (snd (post_register now req env))))"
  by (auto simp: post_register_def kv_get_def kv_put_def JSON_stringify_def Let_def
      no_empty_entry_put
      split: sum.splits option.splits prod.splits)

lemma post_heartbeat_renew_writes:
  "(\<exists>cs. calls (snd (post_heartbeat_renew now req env)) = calls env @ cs \<and>
          list_all nonempty_put cs) \<and>
   (no_empty_entry (register_center env) \<longrightarrow>
      no_empty_entry (register_center (snd (post_heartbeat_renew now req env))))"
  by (auto simp: post_heartbeat_renew_def kv_get_def kv_put_def JSON_stringify_def Let_def
      no_empty_entry_put
      split: sum.splits option.splits prod.splits
      dest: findIndex_Some_nonempty)

lemma post_unregister_writes:
  "(\<exists>cs. calls (snd (post_unregister req env)) = calls env @ cs \<and> list_all nonempty_put cs) \<and>
   (no_empty_entry (register_center env) \<longrightarrow>
      no_empty_entry (register_center (snd (post_unregister req env))))"
  by (auto simp: post_unregister_def kv_get_def kv_put_def kv_delete_def JSON_stringify_def
      Let_def no_empty_entry_put no_empty_entry_delete
      split: sum.splits option.splits prod.splits)

lemma get_discover_writes:
  "(\<exists>cs. calls (snd (get_discover now query env)) = calls env @ cs \<and> list_all nonempty_put cs) \<and>
   (no_empty_entry (register_center env) \<longrightarrow>
      no_empty_entry (register_center (snd (get_discover now query env))))"
proof (cases "falsy query")
  case True
  then show ?thesis
    by (simp add: get_discover_def)
next
  case False
  then obtain name where query: "query = Some name"
    by (cases query) simp_all
  obtain res env' where step: "cleanExpiredNodes now env name = (res, env')"
    by (cases "cleanExpiredNodes now env name")
  from False query step have after: "snd (get_discover now query env) = env'"
    by (simp add: get_discover_def split: sum.splits)
  from cleanExpiredNodes_calls [of now env name] cleanExpiredNodes_no_empty [of env now name]
    step after show ?thesis
    by simp
qed

lemma get_health_writes:
  "(\<exists>cs. calls (snd (get_health now keys env)) = calls env @ cs \<and> list_all nonempty_put cs) \<and>
   (no_empty_entry (register_center env) \<longrightarrow>
      no_empty_entry (register_center (snd (get_health now keys env))))"
proof -
  let ?env = "env\<lparr>calls := calls env @ [List]\<rparr>"
  have after: "snd (get_health now keys env) = snd (sweep_keys now keys ?env)"
    by (simp add: get_health_def cleanAllExpiredNodes_def split: prod.splits sum.splits)
  from sweep_keys_calls [of now keys ?env] obtain cs where
    cs: "calls (snd (sweep_keys now keys ?env)) = calls ?env @ cs" "list_all nonempty_put cs"
    by blast
  then have "calls (snd (sweep_keys now keys ?env)) = calls env @ (List # cs)"
    and "list_all nonempty_put (List # cs)"
    by simp_all
  then have "\<exists>cs. calls (snd (sweep_keys now keys ?env)) = calls env @ cs \<and> list_all nonempty_put cs"
    by blast
  moreover have "no_empty_entry (register_center env) \<longrightarrow>
      no_empty_entry (register_center (snd (sweep_keys now keys ?env)))"
    using sweep_keys_no_empty [of ?env now keys] by simp
  ultimately show ?thesis
    by (simp only: after)
qed

lemma sweep_keys_keeps_corrupt:
  "register_center env name = Some (NotJson, ttl) \<Longrightarrow>
   register_center (snd (sweep_keys now keys env)) name = Some (NotJson, ttl)"
proof (induction keys arbitrary: env)
  case Nil
  then show ?case by simp
next
  case (Cons key keys)
  obtain res env' where step: "cleanExpiredNodes now env key = (res, env')"
    by (cases "cleanExpiredNodes now env key")
  from cleanExpiredNodes_store [of now env key] step
  have "register_center env' = (register_center env)(key := compacted now (register_center env key))"
    by simp
  with Cons.prems have keep: "register_center env' name = Some (NotJson, ttl)"
    by (cases "name = key") simp_all
  show ?case
  proof (cases res)
    case (Inl e)
    with step keep show ?thesis by simp
  next
    case (Inr act)
    with step Cons.IH [OF keep] show ?thesis by simp
  qed
qed

text \<open>
  C4. Every operation (register-or-renew, register and heartbeat of the split revision,
  discover, unregister, health sweep) only appends calls that do not put an empty node
  array, and keeps a store without empty node arrays free of them. Where the pass or
  unregister computes an empty list from a stored node array, the calls are a get and a
  delete of the key, and the key is gone afterwards.
\<close>

theorem empty_entry_never_written:
  "(\<exists>cs. calls (perform now op env) = calls env @ cs \<and> list_all nonempty_put cs) \<and>
   (no_empty_entry (register_center env) \<longrightarrow>
      no_empty_entry (register_center (perform now op env))) \<and>
   (register_center env name = Some (NodeArray nodes, ttl) \<longrightarrow>
    filter (\<lambda>node. \<not> isNodeExpired now node) nodes = [] \<longrightarrow>
      calls (snd (cleanExpiredNodes now env name)) = calls env @ [Get name, Delete name] \<and>
      register_center (snd (cleanExpiredNodes now env name)) name = None) \<and>
   (name \<noteq> [] \<longrightarrow> addr \<noteq> [] \<longrightarrow> nodes \<noteq> [] \<longrightarrow>
    register_center env name = Some (NodeArray nodes, ttl) \<longrightarrow>
    filter (\<lambda>node. address node \<noteq> addr) nodes = [] \<longrightarrow>
      calls (snd (post_unregister (JsonBody (HeartbeatRequest (Some name) (Some addr))) env)) =
        calls env @ [Get name, Delete name] \<and>
      register_center
        (snd (post_unregister (JsonBody (HeartbeatRequest (Some name) (Some addr))) env)) name =
        None)"
proof (intro conjI impI)
  show "\<exists>cs. calls (perform now op env) = calls env @ cs \<and> list_all nonempty_put cs"
    using post_heartbeat_writes [of now _ env] post_register_writes [of now _ env]
      post_heartbeat_renew_writes [of now _ env] get_discover_writes [of now _ env]
      post_unregister_writes [of _ env] get_health_writes [of now _ env]
    by (cases op) simp_all
next
  assume "no_empty_entry (register_center env)"
  then show "no_empty_entry (register_center (perform now op env))"
    using post_heartbeat_writes [of now _ env] post_register_writes [of now _ env]
      post_heartbeat_renew_writes [of now _ env] get_discover_writes [of now _ env]
      post_unregister_writes [of _ env] get_health_writes [of now _ env]
    by (cases op) simp_all
next
  assume stored: "register_center env name = Some (NodeArray nodes, ttl)"
    and none: "filter (\<lambda>node. \<not> isNodeExpired now node) nodes = []"
  from none show "calls (snd (cleanExpiredNodes now env name)) = calls env @ [Get name, Delete name]"
    by (simp add: cleanExpiredNodes_nodes [OF stored] Let_def)
  from none show "register_center (snd (cleanExpiredNodes now env name)) name = None"
    by (simp add: cleanExpiredNodes_nodes [OF stored] Let_def)
next
  assume ne: "name \<noteq> []" "addr \<noteq> []" "nodes \<noteq> []"
    and stored: "register_center env name = Some (NodeArray nodes, ttl)"
    and none: "filter (\<lambda>node. address node \<noteq> addr) nodes = []"
  from none ne(3) have known: "\<exists>r\<in>set nodes. address r = addr"
    by (cases nodes) (auto simp: filter_empty_conv)
  note run = post_unregister_known [OF ne(1,2) stored known]
  from none
  show "calls (snd (post_unregister (JsonBody (HeartbeatRequest (Some name) (Some addr))) env)) =
        calls env @ [Get name, Delete name]"
    by (simp add: run)
  from none
  show "register_center
        (snd (post_unregister (JsonBody (HeartbeatRequest (Some name) (Some addr))) env)) name =
        None"
    by (simp add: run)
qed

theorem empty_entry_never_written_witness:
  "calls (perform 1000000 (Discover (Some ''a'')) (env_a (NodeArray [node_x 0]))) =
     [Get ''a'', Delete ''a''] \<and>
   register_center (perform 1000000 (Discover (Some ''a'')) (env_a (NodeArray [node_x 0]))) ''a'' =
     None \<and>
   no_empty_entry (register_center (perform 1000000 (Discover (Some ''a''))
     (env_a (NodeArray [node_x 0])))) \<and>
   calls (snd (post_unregister req_a_x (env_a (NodeArray [node_x 0])))) =
     [Get ''a'', Delete ''a''] \<and>
   register_center (snd (post_unregister req_a_x (env_a (NodeArray [node_x 0])))) ''a'' = None"
proof -
  let ?env = "env_a (NodeArray [node_x 0])"
  have stored: "register_center ?env ''a'' = Some (NodeArray [node_x 0], Some 86400)"
    by (simp add: env_a_def)
  have inv: "no_empty_entry (register_center ?env)"
    by (simp add: no_empty_entry_def env_a_def)
  have gone: "filter (\<lambda>node. \<not> isNodeExpired 1000000 node) [node_x 0] = []"
    by (simp add: isNodeExpired_def HEARTBEAT_EXPIRE_def node_x_def)
  have only: "filter (\<lambda>node. address node \<noteq> ''10.0.0.1'') [node_x 0] = []"
    by (simp add: node_x_def)
  have ne: "''a'' \<noteq> []" "''10.0.0.1'' \<noteq> []" "[node_x 0] \<noteq> []"
    by simp_all
  note inst = empty_entry_never_written [of 1000000 "Discover (Some ''a'')" ?env "''a''"
      "[node_x 0]" "Some 86400" "''10.0.0.1''"]
  from inst inv have a: "no_empty_entry (register_center (perform 1000000 (Discover (Some ''a'')) ?env))"
    by blast
  from inst stored gone
  have b: "calls (snd (cleanExpiredNodes 1000000 ?env ''a'')) = calls ?env @ [Get ''a'', Delete ''a'']"
    and c: "register_center (snd (cleanExpiredNodes 1000000 ?env ''a'')) ''a'' = None"
    by blast+
  from inst ne stored only
  have d: "calls (snd (post_unregister (JsonBody (HeartbeatRequest (Some ''a'') (Some ''10.0.0.1''))) ?env)) =
        calls ?env @ [Get ''a'', Delete ''a'']"
    and e: "register_center
        (snd (post_unregister (JsonBody (HeartbeatRequest (Some ''a'') (Some ''10.0.0.1''))) ?env)) ''a'' =
        None"
    by blast+
  have disc: "perform 1000000 (Discover (Some ''a'')) ?env = snd (cleanExpiredNodes 1000000 ?env ''a'')"
    by (simp add: get_discover_def split: prod.splits sum.splits)
  have "calls ?env = []"
    by (simp add: env_a_def)
  with a b c d e show ?thesis
    unfolding disc req_a_x_def by simp
qed

text \<open>
  C7, as the claim states it, fails: the empty string is a stored payload on which
  \<^verbatim>\<open>JSON.parse\<close> throws, yet register-or-renew treats it as the empty list, answers 200
  with outcome \<open>register\<close> and overwrites the key.
\<close>

theorem corrupt_payload_counterexample:
  "JSON_parse EmptyString = Inl SyntaxError \<and>
   post_heartbeat 1000 req_a_x (env_a EmptyString) =
     (Response 200 First_register_ok
        (Some (UpsertData ''a'' ''10.0.0.1'' 1000 301000 ''register'')),
      \<lparr>register_center = [''a'' \<mapsto> (NodeArray [node_x 1000], Some 86400)],
       calls = [Get ''a'', Put ''a'' (NodeArray [node_x 1000]) (Some 86400)]\<rparr>)"
  by (simp add: post_heartbeat_def req_a_x_def env_a_def kv_get_def kv_put_def
      JSON_stringify_def KV_DEFAULT_TTL_def HEARTBEAT_EXPIRE_def node_x_def)

text \<open>
  C7, amended. When the key holds non-empty text that fails to parse, every operation
  that reads it surfaces an error and none answers as if the list were empty:
  register-or-renew, discover and unregister (and register and heartbeat of the split
  revision) answer 500 having made no call but the get, the pass throws, and the sweep
  and the health handler throw when the key is among those enumerated and leave its text
  in place. An absent key and an empty-string payload are both read as the empty node
  list: register-or-renew answers 200 with outcome \<open>register\<close>, discover answers 200
  with \<open>activeCount = 0\<close>, the pass returns the empty list, and unregister answers 404
  (service not registered).
\<close>

theorem corrupt_payload_internal_error:
  assumes "name \<noteq> []" and "addr \<noteq> []"
  shows "(register_center env name = Some (NotJson, ttl) \<longrightarrow>
            post_heartbeat now (JsonBody (HeartbeatRequest (Some name) (Some addr))) env =
              (Response 500 Operation_failed (Some (ErrorData SyntaxError)),
               env\<lparr>calls := calls env @ [Get name]\<rparr>) \<and>
            post_register now (JsonBody (HeartbeatRequest (Some name) (Some addr))) env =
              (Response 500 Register_failed (Some (ErrorData SyntaxError)),
               env\<lparr>calls := calls env @ [Get name]\<rparr>) \<and>
            post_heartbeat_renew now (JsonBody (HeartbeatRequest (Some name) (Some addr))) env =
              (Response 500 Heartbeat_failed (Some (ErrorData SyntaxError)),
               env\<lparr>calls := calls env @ [Get name]\<rparr>) \<and>
            get_discover now (Some name) env =
              (Response 500 Discover_failed (Some (ErrorData SyntaxError)),
               env\<lparr>calls := calls env @ [Get name]\<rparr>) \<and>
            post_unregister (JsonBody (HeartbeatRequest (Some name) (Some addr))) env =
              (Response 500 Unregister_failed (Some (ErrorData SyntaxError)),
               env\<lparr>calls := calls env @ [Get name]\<rparr>) \<and>
            cleanExpiredNodes now env name =
              (Inl SyntaxError, env\<lparr>calls := calls env @ [Get name]\<rparr>) \<and>
            (name \<in> set keys \<longrightarrow>
               fst (cleanAllExpiredNodes now keys env) = Inl SyntaxError \<and>
               fst (get_health now keys env) = Inl SyntaxError \<and>
               register_center (snd (get_health now keys env)) name = Some (NotJson, ttl))) \<and>
         (register_center env name = None \<or> register_center env name = Some (EmptyString, ttl) \<longrightarrow>
            stored_nodes env name = Inr [] \<and>
            fst (post_heartbeat now (JsonBody (HeartbeatRequest (Some name) (Some addr))) env) =
              Response 200 First_register_ok
                (Some (UpsertData name addr now (now + 300000) ''register'')) \<and>
            fst (get_discover now (Some name) env) =
              Response 200 Discover_ok (Some (DiscoverData name 0 [] [])) \<and>
            fst (cleanExpiredNodes now env name) = Inr [] \<and>
            fst (post_unregister (JsonBody (HeartbeatRequest (Some name) (Some addr))) env) =
              Response 404 Service_not_registered None)"
proof (intro conjI impI)
  let ?req = "JsonBody (HeartbeatRequest (Some name) (Some addr))"
  let ?env = "env\<lparr>calls := calls env @ [List]\<rparr>"
  {
    assume bad: "register_center env name = Some (NotJson, ttl)"
    show "post_heartbeat now ?req env =
        (Response 500 Operation_failed (Some (ErrorData SyntaxError)),
         env\<lparr>calls := calls env @ [Get name]\<rparr>)"
      by (rule post_heartbeat_not_json [OF assms bad])
    show "post_register now ?req env =
        (Response 500 Register_failed (Some (ErrorData SyntaxError)),
         env\<lparr>calls := calls env @ [Get name]\<rparr>)"
      by (rule post_register_not_json [OF assms bad])
    show "post_heartbeat_renew now ?req env =
        (Response 500 Heartbeat_failed (Some (ErrorData SyntaxError)),
         env\<lparr>calls := calls env @ [Get name]\<rparr>)"
      by (rule post_heartbeat_renew_not_json [OF assms bad])
    show "get_discover now (Some name) env =
        (Response 500 Discover_failed (Some (ErrorData SyntaxError)),
         env\<lparr>calls := calls env @ [Get name]\<rparr>)"
      using assms(1) by (simp add: get_discover_def cleanExpiredNodes_not_json [OF bad])
    show "post_unregister ?req env =
        (Response 500 Unregister_failed (Some (ErrorData SyntaxError)),
         env\<lparr>calls := calls env @ [Get name]\<rparr>)"
      by (rule post_unregister_not_json [OF assms bad])
    show "cleanExpiredNodes now env name =
        (Inl SyntaxError, env\<lparr>calls := calls env @ [Get name]\<rparr>)"
      by (rule cleanExpiredNodes_not_json [OF bad])
    assume key: "name \<in> set keys"
    from bad have bad': "register_center ?env name = Some (NotJson, ttl)"
      by simp
    from sweep_keys_corrupt [OF key bad', of now]
    show sweep: "fst (cleanAllExpiredNodes now keys env) = Inl SyntaxError"
      by (simp add: cleanAllExpiredNodes_def)
    then obtain env' where "cleanAllExpiredNodes now keys env = (Inl SyntaxError, env')"
      by (cases "cleanAllExpiredNodes now keys env") simp
    then show "fst (get_health now keys env) = Inl SyntaxError"
      by (simp add: get_health_def)
    have after: "snd (get_health now keys env) = snd (sweep_keys now keys ?env)"
      by (simp add: get_health_def cleanAllExpiredNodes_def split: prod.splits sum.splits)
    show "register_center (snd (get_health now keys env)) name = Some (NotJson, ttl)"
      unfolding after using bad' by (rule sweep_keys_keeps_corrupt)
  }
  {
    assume read: "register_center env name = None \<or> register_center env name = Some (EmptyString, ttl)"
    then show stored: "stored_nodes env name = Inr []"
      by (auto simp: stored_nodes_def)
    from post_heartbeat_new [OF assms stored, of now]
    show "fst (post_heartbeat now ?req env) =
        Response 200 First_register_ok (Some (UpsertData name addr now (now + 300000) ''register''))"
      by simp
    from read assms(1) show "fst (get_discover now (Some name) env) =
        Response 200 Discover_ok (Some (DiscoverData name 0 [] []))"
      by (auto simp: get_discover_def cleanExpiredNodes_absent cleanExpiredNodes_empty_string)
    from read show "fst (cleanExpiredNodes now env name) = Inr []"
      by (auto simp: cleanExpiredNodes_absent cleanExpiredNodes_empty_string)
    from read show "fst (post_unregister ?req env) = Response 404 Service_not_registered None"
      by (auto simp: post_unregister_absent [OF assms] post_unregister_empty_string [OF assms])
  }
qed

theorem corrupt_payload_internal_error_witness:
  "post_heartbeat 1000 req_a_x (env_a NotJson) =
     (Response 500 Operation_failed (Some (ErrorData SyntaxError)),
      \<lparr>register_center = [''a'' \<mapsto> (NotJson, Some 86400)], calls = [Get ''a'']\<rparr>) \<and>
   get_discover 1000 (Some ''a'') (env_a NotJson) =
     (Response 500 Discover_failed (Some (ErrorData SyntaxError)),
      \<lparr>register_center = [''a'' \<mapsto> (NotJson, Some 86400)], calls = [Get ''a'']\<rparr>) \<and>
   post_unregister req_a_x (env_a NotJson) =
     (Response 500 Unregister_failed (Some (ErrorData SyntaxError)),
      \<lparr>register_center = [''a'' \<mapsto> (NotJson, Some 86400)], calls = [Get ''a'']\<rparr>) \<and>
   fst (get_health 1000 [''a''] (env_a NotJson)) = Inl SyntaxError \<and>
   fst (get_discover 1000 (Some ''a'') (env_a EmptyString)) =
     Response 200 Discover_ok (Some (DiscoverData ''a'' 0 [] []))"
proof -
  have ne: "''a'' \<noteq> []" "''10.0.0.1'' \<noteq> []"
    by simp_all
  have bad: "register_center (env_a NotJson) ''a'' = Some (NotJson, Some 86400)"
    by (simp add: env_a_def)
  have key: "''a'' \<in> set [''a'']"
    by simp
  have empty: "register_center (env_a EmptyString) ''a'' = None \<or>
      register_center (env_a EmptyString) ''a'' = Some (EmptyString, Some 86400)"
    by (simp add: env_a_def)
  from corrupt_payload_internal_error [OF ne, of "env_a NotJson" "Some 86400" 1000 "[''a'']"] bad key
  have "post_heartbeat 1000 (JsonBody (HeartbeatRequest (Some ''a'') (Some ''10.0.0.1''))) (env_a NotJson) =
     (Response 500 Operation_failed (Some (ErrorData SyntaxError)),
      (env_a NotJson)\<lparr>calls := calls (env_a NotJson) @ [Get ''a'']\<rparr>)"
    and "get_discover 1000 (Some ''a'') (env_a NotJson) =
     (Response 500 Discover_failed (Some (ErrorData SyntaxError)),
      (env_a NotJson)\<lparr>calls := calls (env_a NotJson) @ [Get ''a'']\<rparr>)"
    and "post_unregister (JsonBody (HeartbeatRequest (Some ''a'') (Some ''10.0.0.1''))) (env_a NotJson) =
     (Response 500 Unregister_failed (Some (ErrorData SyntaxError)),
      (env_a NotJson)\<lparr>calls := calls (env_a NotJson) @ [Get ''a'']\<rparr>)"
    and "fst (get_health 1000 [''a''] (env_a NotJson)) = Inl SyntaxError"
    by blast+
  moreover
  from corrupt_payload_internal_error [OF ne, of "env_a EmptyString" "Some 86400" 1000] empty
  have "fst (get_discover 1000 (Some ''a'') (env_a EmptyString)) =
     Response 200 Discover_ok (Some (DiscoverData ''a'' 0 [] []))"
    by blast
  ultimately show ?thesis
    by (simp add: req_a_x_def env_a_def)
qed

section \<open>Time-to-live of the writes\<close>

text \<open>
  C9. The \<^verbatim>\<open>put\<close> of unregister passes no \<^verbatim>\<open>expirationTtl\<close>: unregistering one of
  two nodes writes the remaining node with no time-to-live, where register-or-renew and
  the compaction pass write with 86400 seconds.
\<close>

theorem unregister_put_without_ttl:
  "post_unregister req_a_x (env_a (NodeArray [node_x 1, node_y 2])) =
     (Response 200 Unregister_ok None,
      \<lparr>register_center = [''a'' \<mapsto> (NodeArray [node_y 2], None)],
       calls = [Get ''a'', Put ''a'' (NodeArray [node_y 2]) None]\<rparr>) \<and>
   snd (post_heartbeat 3 req_a_x (env_a (NodeArray [node_x 1, node_y 2]))) =
     \<lparr>register_center = [''a'' \<mapsto> (NodeArray [node_x 3, node_y 2], Some 86400)],
      calls = [Get ''a'', Put ''a'' (NodeArray [node_x 3, node_y 2]) (Some 86400)]\<rparr> \<and>
   snd (cleanExpiredNodes 300002 (env_a (NodeArray [node_x 1, node_y 2])) ''a'') =
     \<lparr>register_center = [''a'' \<mapsto> (NodeArray [node_y 2], Some 86400)],
      calls = [Get ''a'', Put ''a'' (NodeArray [node_y 2]) (Some 86400)]\<rparr>"
  by (simp add: post_unregister_def post_heartbeat_def cleanExpiredNodes_def req_a_x_def
      env_a_def kv_get_def kv_put_def JSON_stringify_def KV_DEFAULT_TTL_def
      isNodeExpired_def HEARTBEAT_EXPIRE_def node_x_def node_y_def Let_def)

end
